theory Spec2Isabelle
  imports Main "HOL-Library.Sublist" "HOL-Library.AList"
begin

section \<open>Python strings and \<open>posixpath\<close>\<close>

text \<open>
  A Python \<open>str\<close> is kept as the bytes of its UTF-8 encoding, in a \<open>string\<close> (a list of
  8-bit characters); every character the program tests for is ASCII, and searching,
  replacing and comparing encoded strings agrees with doing so on the code points.
  Python \<open>bytes\<close> are a \<open>string\<close> too, so \<open>decode\<close> is the check that the bytes are
  well-formed UTF-8. The functions of this section follow the CPython definitions of
  the \<open>str\<close> methods and of \<open>posixpath\<close> that \<open>staged.py\<close> calls.
\<close>

definition startswith :: "string \<Rightarrow> string \<Rightarrow> bool" where
  \<comment> \<open>\<open>s.startswith(p)\<close>\<close>
  "startswith s p = prefix p s"

definition endswith :: "string \<Rightarrow> string \<Rightarrow> bool" where
  \<comment> \<open>\<open>s.endswith(p)\<close>\<close>
  "endswith s p = suffix p s"

fun str_contains :: "string \<Rightarrow> string \<Rightarrow> bool" where
  \<comment> \<open>\<open>p in s\<close> for two strings, also \<open>re.search\<close> of a literal\<close>
  "str_contains p [] = (p = [])"
| "str_contains p (c # cs) = (prefix p (c # cs) \<or> str_contains p cs)"

function str_replace :: "string \<Rightarrow> string \<Rightarrow> string \<Rightarrow> string" where
  \<comment> \<open>\<open>s.replace(old, new)\<close>: every non-overlapping occurrence, from the left\<close>
  "str_replace old new s =
     (if old = [] then new @ concat (map (\<lambda>c. c # new) s)
      else if s = [] then []
      else if prefix old s then new @ str_replace old new (drop (length old) s)
      else hd s # str_replace old new (tl s))"
  by pat_completeness auto
termination
  by (relation "measure (\<lambda>(old, new, s). length s)") auto

declare str_replace.simps [simp del]

definition rstrip_sep :: "string \<Rightarrow> string" where
  \<comment> \<open>\<open>s.rstrip('/')\<close>\<close>
  "rstrip_sep s = rev (dropWhile (\<lambda>c. c = CHR ''/'') (rev s))"

definition os_path_split :: "string \<Rightarrow> string list" where
  \<comment> \<open>\<open>posixpath.split\<close>: the pair (head, tail), as the two-element sequence the
      caller indexes and measures\<close>
  "os_path_split p =
     (let tail = rev (takeWhile (\<lambda>c. c \<noteq> CHR ''/'') (rev p));
          head = take (length p - length tail) p;
          head' = (if head \<noteq> [] \<and> \<not> list_all (\<lambda>c. c = CHR ''/'') head
                   then rstrip_sep head else head)
      in [head', tail])"

fun os_path_join :: "string \<Rightarrow> string list \<Rightarrow> string" where
  \<comment> \<open>\<open>posixpath.join(a, *p)\<close>\<close>
  "os_path_join path [] = path"
| "os_path_join path (b # bs) =
     os_path_join
       (if startswith b ''/'' then b
        else if path = [] \<or> endswith path ''/'' then path @ b
        else path @ ''/'' @ b) bs"

section \<open>The common parent of a list of changed files\<close>

definition common_parent_step :: "string list \<Rightarrow> string list \<Rightarrow> nat \<Rightarrow> string \<Rightarrow> string" where
  \<comment> \<open>one round of the inner loop: \<open>bits[1:i]\<close> is \<open>drop 1 (take i bits)\<close>\<close>
  "common_parent_step files bits i top_directory =
     (let tmp_path = os_path_join (bits ! 0) (drop 1 (take i bits)) @ ''/''
      in if list_all (\<lambda>fp. startswith fp tmp_path) files then tmp_path
         else top_directory)"

definition common_parent_file :: "string list \<Rightarrow> string \<Rightarrow> string \<Rightarrow> string" where
  \<comment> \<open>the body of the outer loop, for one \<open>filename\<close>\<close>
  "common_parent_file files filename top_directory =
     (if top_directory = ''/'' \<or> \<not> startswith filename top_directory
      then (let bits = os_path_split filename
            in fold (common_parent_step files bits) [0 ..< length bits - 1] top_directory)
      else top_directory)"

definition common_parent :: "string list \<Rightarrow> string" where
  "common_parent files =
     (let top_directory = fold (common_parent_file files) files ''/''
      in if top_directory = [] then ''/'' else top_directory)"



fun os_path_normpath_comps :: "bool \<Rightarrow> string list \<Rightarrow> string list \<Rightarrow> string list" where
  \<comment> \<open>the loop of \<open>posixpath.normpath\<close> over the components, \<open>new_comps\<close> as accumulator\<close>
  "os_path_normpath_comps initial_slashes new_comps [] = new_comps"
| "os_path_normpath_comps initial_slashes new_comps (seg # comps) =
     (if seg = [] \<or> seg = ''.'' then os_path_normpath_comps initial_slashes new_comps comps
      else if seg \<noteq> ''..'' \<or> (\<not> initial_slashes \<and> new_comps = [])
              \<or> (new_comps \<noteq> [] \<and> last new_comps = ''..'')
      then os_path_normpath_comps initial_slashes (new_comps @ [seg]) comps
      else if new_comps \<noteq> []
      then os_path_normpath_comps initial_slashes (butlast new_comps) comps
      else os_path_normpath_comps initial_slashes new_comps comps)"

fun str_split_sep :: "string \<Rightarrow> string list" where
  \<comment> \<open>\<open>s.split('/')\<close>\<close>
  "str_split_sep [] = [[]]"
| "str_split_sep (c # cs) =
     (if c = CHR ''/'' then [] # str_split_sep cs
      else (case str_split_sep cs of
              [] \<Rightarrow> [[c]]
            | seg # comps \<Rightarrow> (c # seg) # comps))"

fun str_join_sep :: "string list \<Rightarrow> string" where
  \<comment> \<open>\<open>'/'.join(comps)\<close>\<close>
  "str_join_sep [] = []"
| "str_join_sep [seg] = seg"
| "str_join_sep (seg # comps) = seg @ ''/'' @ str_join_sep comps"

definition os_path_normpath :: "string \<Rightarrow> string" where
  \<comment> \<open>\<open>posixpath.normpath\<close>: one or two leading slashes are kept, three or more
      become one\<close>
  "os_path_normpath path =
     (if path = [] then ''.''
      else
        (let initial_slashes =
               (if startswith path ''/''
                then (if startswith path ''//'' \<and> \<not> startswith path ''///''
                      then 2 else 1)
                else (0::nat));
             comps = os_path_normpath_comps (initial_slashes \<noteq> 0) []
                       (str_split_sep path);
             path' = replicate initial_slashes CHR ''/'' @ str_join_sep comps
         in if path' = [] then ''.'' else path'))"

definition os_path_abspath :: "string \<Rightarrow> string \<Rightarrow> string" where
  \<comment> \<open>\<open>posixpath.abspath\<close>, given the current directory\<close>
  "os_path_abspath current path =
     os_path_normpath
       (if startswith path ''/'' then path else os_path_join current [path])"

definition whitespace :: "string list" where
  \<comment> \<open>the characters \<open>str.strip()\<close> removes, each in UTF-8: U+0009 to U+000D, U+001C to
      U+0020, U+0085, U+00A0, U+1680, U+2000 to U+200A, U+2028, U+2029, U+202F, U+205F
      and U+3000\<close>
  "whitespace =
     map (\<lambda>c. [c]) [CHR 0x09, CHR 0x0A, CHR 0x0B, CHR 0x0C, CHR 0x0D,
                      CHR 0x1C, CHR 0x1D, CHR 0x1E, CHR 0x1F, CHR 0x20]
     @ [[CHR 0xC2, CHR 0x85], [CHR 0xC2, CHR 0xA0], [CHR 0xE1, CHR 0x9A, CHR 0x80]]
     @ map (\<lambda>c. [CHR 0xE2, CHR 0x80, c])
         [CHR 0x80, CHR 0x81, CHR 0x82, CHR 0x83, CHR 0x84, CHR 0x85, CHR 0x86, CHR 0x87,
          CHR 0x88, CHR 0x89, CHR 0x8A, CHR 0xA8, CHR 0xA9, CHR 0xAF]
     @ [[CHR 0xE2, CHR 0x81, CHR 0x9F], [CHR 0xE3, CHR 0x80, CHR 0x80]]"

function strip_left :: "string list \<Rightarrow> string \<Rightarrow> string" where
  \<comment> \<open>drop leading occurrences of the given characters\<close>
  "strip_left chars s =
     (case filter (\<lambda>t. t \<noteq> [] \<and> prefix t s) chars of
        [] \<Rightarrow> s
      | t # ts \<Rightarrow> strip_left chars (drop (length t) s))"
  by pat_completeness auto
termination
proof (relation "measure (\<lambda>(chars, s). length s)")
  show "wf (measure (\<lambda>(chars, s). length s))" by simp
next
  fix chars :: "string list" and s t :: string and ts :: "string list"
  assume "filter (\<lambda>t. t \<noteq> [] \<and> prefix t s) chars = t # ts"
  then have "t \<in> set (filter (\<lambda>t. t \<noteq> [] \<and> prefix t s) chars)" by simp
  then have "t \<noteq> []" and "prefix t s" by simp_all
  then show "((chars, drop (length t) s), (chars, s)) \<in> measure (\<lambda>(chars, s). length s)"
    by (auto simp: prefix_def)
qed

declare strip_left.simps [simp del]

definition str_strip :: "string \<Rightarrow> string" where
  \<comment> \<open>\<open>s.strip()\<close>\<close>
  "str_strip s =
     rev (strip_left (map rev whitespace) (rev (strip_left whitespace s)))"

definition between :: "nat \<Rightarrow> nat \<Rightarrow> char \<Rightarrow> bool" where
  "between lo hi c = (lo \<le> of_char c \<and> of_char c \<le> hi)"

definition continuation :: "char \<Rightarrow> bool" where
  \<comment> \<open>a continuation byte of UTF-8\<close>
  "continuation c = between 0x80 0xBF c"

fun utf8_valid :: "string \<Rightarrow> bool" where
  \<comment> \<open>well-formed UTF-8: no stray or missing continuation byte, no overlong form, no
      surrogate, nothing above U+10FFFF\<close>
  "utf8_valid [] = True"
| "utf8_valid (a # rest) =
     (if between 0x00 0x7F a then utf8_valid rest
      else if between 0xC2 0xDF a then
        (case rest of
           b # rest' \<Rightarrow> continuation b \<and> utf8_valid rest'
         | _ \<Rightarrow> False)
      else if between 0xE0 0xEF a then
        (case rest of
           b # c # rest' \<Rightarrow>
             (if a = CHR 0xE0 then between 0xA0 0xBF b
              else if a = CHR 0xED then between 0x80 0x9F b
              else continuation b)
             \<and> continuation c \<and> utf8_valid rest'
         | _ \<Rightarrow> False)
      else if between 0xF0 0xF4 a then
        (case rest of
           b # c # d # rest' \<Rightarrow>
             (if a = CHR 0xF0 then between 0x90 0xBF b
              else if a = CHR 0xF4 then between 0x80 0x8F b
              else continuation b)
             \<and> continuation c \<and> continuation d \<and> utf8_valid rest'
         | _ \<Rightarrow> False)
      else False)"

function utf8_chars :: "string \<Rightarrow> string list" where
  \<comment> \<open>the characters of a \<open>str\<close>, as iterating over it yields them\<close>
  "utf8_chars [] = []"
| "utf8_chars (c # cs) = (c # takeWhile continuation cs) # utf8_chars (dropWhile continuation cs)"
  by pat_completeness auto
termination
  by (relation "measure length") (auto simp: length_dropWhile_le le_imp_less_Suc)

definition re_match_plus :: "(char \<Rightarrow> bool) \<Rightarrow> string \<Rightarrow> bool" where
  \<comment> \<open>\<open>re.match(r"^[...]+$", s)\<close> for a character class: the class matches greedily,
      and Python's \<open>$\<close> matches at the end of the string and also just before a
      newline that is the last character\<close>
  "re_match_plus cls s =
     (let rest = dropWhile cls s
      in takeWhile cls s \<noteq> [] \<and> (rest = [] \<or> rest = [CHR 0x0A]))"

definition deploydir_char :: "char \<Rightarrow> bool" where
  \<comment> \<open>the class \<open>[-a-zA-Z0-9/.]\<close>\<close>
  "deploydir_char c =
     (c \<in> set ''-abcdefghijklmnopqrstuvwxyzABCDEFGHIJKLMNOPQRSTUVWXYZ0123456789/.'')"

definition subdir_char :: "char \<Rightarrow> bool" where
  \<comment> \<open>the class \<open>[-._a-zA-Z0-9/]\<close>\<close>
  "subdir_char c =
     (c \<in> set ''-._abcdefghijklmnopqrstuvwxyzABCDEFGHIJKLMNOPQRSTUVWXYZ0123456789/'')"

section \<open>The world outside the program\<close>

text \<open>
  The program acts on directories, on external \<open>git\<close> and \<open>svn\<close> processes, on the
  system log and on the CDN's purge endpoint. The model threads a \<open>world\<close> through every
  function: which paths name a directory, the current directory, how each external
  command behaves (given by its argument vector and the directory it runs in), which
  paths are symbolic links, what a command does to the directories and links, what the
  purge endpoint answers, and the trace of everything the program did. The directories of a
  world are named by their canonical absolute path, and a path the program hands to the
  operating system is resolved to that form first, so \<open>/etc/\<close>, \<open>//etc\<close> and \<open>/etc\<close> are
  one directory. An external command may create and remove directories and links as it
  likes, whether it exits or is killed at its timeout.
\<close>

datatype exn =
    CalledProcessError string \<comment> \<open>non-zero exit, with the captured output\<close>
  | TimeoutExpired
  | NameError string \<comment> \<open>the name that is not defined\<close>
  | OSError string \<comment> \<open>the class or one of its subclasses, such as \<open>FileNotFoundError\<close>\<close>
  | UnicodeDecodeError
  | RequestException string \<comment> \<open>any exception of \<open>requests.post\<close>, with its text\<close>
  | ValueError string
  | TypeError
  | AttributeError
  | TypeOrAttributeError \<comment> \<open>one of the two, where the model does not tell which\<close>
  | KeyError string

datatype process =
    Exits nat string nat \<comment> \<open>exit status, captured output, running time in seconds\<close>
  | Hangs \<comment> \<open>the process never exits by itself\<close>
  | CannotStart string \<comment> \<open>no process: \<open>Popen\<close> raises \<open>OSError\<close> with this text\<close>

datatype priority = LOG_INFO | LOG_WARNING

datatype event =
    Syslog priority string "string list" \<comment> \<open>priority, format string, its arguments\<close>
  | SyslogExn priority string "string list" exn
      \<comment> \<open>a log line whose last argument is the exception caught\<close>
  | Rmtree string
  | Exec "string list" string "nat option" \<comment> \<open>argument vector, directory, timeout\<close>
  | Post string string \<comment> \<open>an HTTP POST: the URL and the \<open>Fastly-Key\<close> header\<close>
  | Print string

record world =
  isdir :: "string \<Rightarrow> bool"
  islink :: "string \<Rightarrow> bool" \<comment> \<open>a symbolic link (to a directory, when \<open>isdir\<close> holds)\<close>
  cwd :: string
  spawn :: "string list \<Rightarrow> string \<Rightarrow> process"
  effect :: "string list \<Rightarrow> string \<Rightarrow> (string \<Rightarrow> bool) \<times> (string \<Rightarrow> bool)
               \<Rightarrow> (string \<Rightarrow> bool) \<times> (string \<Rightarrow> bool)"
    \<comment> \<open>what a command, run in a directory, makes of the directories and the links\<close>
  purge_reply :: "string \<Rightarrow> string option" \<comment> \<open>response text, or \<open>None\<close> when the request raises\<close>
  trace :: "event list"

type_synonym 'a result = "((exn + 'a) \<times> world) option"
  \<comment> \<open>\<open>None\<close>: the call never returns; \<open>Inl\<close>: it raises; \<open>Inr\<close>: it returns\<close>

definition GIT_CMD :: string where "GIT_CMD = ''/usr/bin/git''"
definition SVN_CMD :: string where "SVN_CMD = ''/usr/bin/svn''"
definition ROOT_DIR :: string where "ROOT_DIR = ''/www''"
definition BLOGS_ROOT_DIR :: string where "BLOGS_ROOT_DIR = ''/www/blogs''"
definition CHECKOUT_TIMEOUT :: nat where "CHECKOUT_TIMEOUT = 180"
definition FASTLY_SVC_ID :: string where "FASTLY_SVC_ID = ''4bDOjcgRkWOJy4OpyuG8yT''"
definition FASTLY_BLOGS_SVC_ID :: string where "FASTLY_BLOGS_SVC_ID = ''xkIl7M5JXDA3qxX3KZeze1''"

definition syslog :: "priority \<Rightarrow> string \<Rightarrow> string list \<Rightarrow> world \<Rightarrow> world" where
  \<comment> \<open>\<open>syslog.syslog(priority, fmt % args)\<close>\<close>
  "syslog p fmt args w = w\<lparr>trace := trace w @ [Syslog p fmt args]\<rparr>"

definition canonical :: "string \<Rightarrow> string" where
  \<comment> \<open>an absolute path without empty, \<open>.\<close> and \<open>..\<close> components and with one leading
      slash\<close>
  "canonical p = ''/'' @ str_join_sep (os_path_normpath_comps True [] (str_split_sep p))"

definition resolve :: "world \<Rightarrow> string \<Rightarrow> string" where
  \<comment> \<open>a path as the operating system reads it: relative to the current directory, and
      brought to its canonical form (which is what the kernel does where no component
      before a \<open>..\<close> is a symbolic link)\<close>
  "resolve w p = canonical (if startswith p ''/'' then p else os_path_join (cwd w) [p])"

definition has_nul :: "string \<Rightarrow> bool" where
  "has_nul s = (CHR 0x00 \<in> set s)"

definition os_path_isdir :: "world \<Rightarrow> string \<Rightarrow> bool" where
  \<comment> \<open>\<open>os.path.isdir\<close> follows symbolic links, and is \<open>False\<close> for a path with a NUL\<close>
  "os_path_isdir w p = (\<not> has_nul p \<and> isdir w (resolve w p))"

definition os_chdir :: "string \<Rightarrow> world \<Rightarrow> exn + world" where
  \<comment> \<open>\<open>os.chdir\<close>: a path that is no directory raises \<open>FileNotFoundError\<close> or
      \<open>NotADirectoryError\<close>\<close>
  "os_chdir p w =
     (if has_nul p then Inl (ValueError ''embedded null byte'')
      else if isdir w (resolve w p) then Inr (w\<lparr>cwd := resolve w p\<rparr>)
      else Inl (OSError p))"

definition within :: "string \<Rightarrow> string \<Rightarrow> bool" where
  \<comment> \<open>\<open>d\<close> is the directory \<open>root\<close> or lies below it, for canonical paths\<close>
  "within root d = (d = root \<or> prefix (rstrip_sep root @ ''/'') d)"

definition shutil_rmtree :: "string \<Rightarrow> world \<Rightarrow> exn + world" where
  \<comment> \<open>\<open>shutil.rmtree\<close> refuses a symbolic link\<close>
  "shutil_rmtree p w =
     (if islink w (resolve w p)
      then Inl (OSError ''Cannot call rmtree on a symbolic link'')
      else Inr (w\<lparr>isdir := (\<lambda>d. isdir w d \<and> \<not> within (resolve w p) d),
                 trace := trace w @ [Rmtree p]\<rparr>))"

definition ran :: "string list \<Rightarrow> nat option \<Rightarrow> world \<Rightarrow> world" where
  \<comment> \<open>the world after a command ran, to its end or to its timeout\<close>
  "ran argv timeout w =
     w\<lparr>isdir := fst (effect w argv (cwd w) (isdir w, islink w)),
       islink := snd (effect w argv (cwd w) (isdir w, islink w)),
       trace := trace w @ [Exec argv (cwd w) timeout]\<rparr>"

definition check_output :: "string list \<Rightarrow> nat option \<Rightarrow> world \<Rightarrow> string result" where
  \<comment> \<open>\<open>subprocess.check_output(argv, timeout=...)\<close>. An argument with a NUL raises
      \<open>ValueError\<close> and a command that cannot be executed raises \<open>OSError\<close>, both before
      any process exists. With a timeout, a process still running after that many
      seconds is killed and \<open>TimeoutExpired\<close> raised; without one, the call waits for
      the process, for ever if it hangs\<close>
  "check_output argv timeout w =
     (if list_ex has_nul argv then Some (Inl (ValueError ''embedded null byte''), w)
      else
        (case spawn w argv (cwd w) of
           CannotStart msg \<Rightarrow> Some (Inl (OSError msg), w)
         | Hangs \<Rightarrow>
             (case timeout of
                None \<Rightarrow> None
              | Some t \<Rightarrow> Some (Inl TimeoutExpired, ran argv timeout w))
         | Exits status out seconds \<Rightarrow>
             (if (case timeout of None \<Rightarrow> False | Some t \<Rightarrow> t < seconds)
              then Some (Inl TimeoutExpired, ran argv timeout w)
              else if status \<noteq> 0
              then Some (Inl (CalledProcessError out), ran argv timeout w)
              else Some (Inr out, ran argv timeout w))))"

definition decode_utf8 :: "string \<Rightarrow> exn + string" where
  \<comment> \<open>\<open>b.decode("utf-8")\<close>\<close>
  "decode_utf8 b = (if utf8_valid b then Inr b else Inl UnicodeDecodeError)"

section \<open>The purge notifier and the VCS executor\<close>

definition purge_site :: "string \<Rightarrow> string \<Rightarrow> string \<Rightarrow> world \<Rightarrow> unit result" where
  \<comment> \<open>\<open>purge_site(hostname, svcid)\<close>, with the Fastly key that is read at start-up\<close>
  "purge_site api_key hostname svcid w =
     (let url = ''https://api.fastly.com/service/'' @ svcid @ ''/purge/'' @ hostname;
          w1 = w\<lparr>trace := trace w @ [Post url api_key]\<rparr>
      in case purge_reply w url of
           None \<Rightarrow> Some (Inl (RequestException url), w1)
         | Some rv_text \<Rightarrow>
             Some (Inr (),
               syslog LOG_INFO ''Fastly PURGE request for %s responded: %s''
                 [hostname, rv_text] w1))"

definition git_clone :: "string \<Rightarrow> string \<Rightarrow> string \<Rightarrow> world \<Rightarrow> unit result" where
  \<comment> \<open>\<open>checkout_git_repo\<close> from \<open># Try to pull in the repo\<close> on\<close>
  "git_clone path source branch w =
     (let w3 = syslog LOG_INFO ''Checking out %s (%s) as %s...'' [source, branch, path] w
      in case check_output
                [GIT_CMD, ''clone'', ''-b'', branch, ''--single-branch'', source, path]
                (Some CHECKOUT_TIMEOUT) w3 of
           None \<Rightarrow> None
         | Some (Inr out, w4) \<Rightarrow>
             Some (Inr (), syslog LOG_INFO ''Checkout worked!'' [] w4)
         | Some (Inl (CalledProcessError out), w4) \<Rightarrow>
             Some (Inr (),
               syslog LOG_WARNING ''Could not check out %s: %s'' [source, out] w4)
         | Some (Inl TimeoutExpired, w4) \<Rightarrow>
             Some (Inr (),
               syslog LOG_WARNING ''Could not check out %s: operation timed out''
                 [source] w4)
         | Some (Inl e, w4) \<Rightarrow> Some (Inl e, w4))"

definition checkout_git_repo :: "string \<Rightarrow> string \<Rightarrow> string \<Rightarrow> world \<Rightarrow> unit result" where
  "checkout_git_repo path source branch w =
     (case os_chdir ROOT_DIR w of
        Inl e \<Rightarrow> Some (Inl e, w)
      | Inr w1 \<Rightarrow>
          (if os_path_isdir w1 path
           then (let w1' = syslog LOG_INFO ''Doing recursive delete of path %s'' [path] w1
                 in case shutil_rmtree path w1' of
                      Inl e \<Rightarrow> Some (Inl e, w1')
                    | Inr w2 \<Rightarrow> git_clone path source branch w2)
           else git_clone path source branch w1))"

definition do_git_pull :: "string \<Rightarrow> string \<Rightarrow> world \<Rightarrow> unit result" where
  \<comment> \<open>the handler of \<open>TimeoutExpired\<close> formats its message with \<open>source\<close>, which is neither
      a parameter nor a global of the module: evaluating it raises \<open>NameError\<close>\<close>
  "do_git_pull path branch w =
     (case os_chdir path w of
        Inl e \<Rightarrow> Some (Inl e, w)
      | Inr w1 \<Rightarrow>
          (case check_output [GIT_CMD, ''fetch'', ''origin'', branch]
                  (Some CHECKOUT_TIMEOUT) w1 of
             None \<Rightarrow> None
           | Some (Inl (CalledProcessError out), w2) \<Rightarrow>
               Some (Inr (),
                 syslog LOG_WARNING ''Command `git fetch origin %s` failed in %s: %s''
                   [branch, path, out] w2)
           | Some (Inl TimeoutExpired, w2) \<Rightarrow> Some (Inl (NameError ''source''), w2)
           | Some (Inl e, w2) \<Rightarrow> Some (Inl e, w2)
           | Some (Inr out, w2) \<Rightarrow>
               (let w3 = syslog LOG_INFO ''Successfully completed `git fetch` into %s''
                           [path] w2;
                    w4 = syslog LOG_INFO
                           ''Refreshing content in %s with: git reset --hard %s''
                           [path, branch] w3
                in case check_output [GIT_CMD, ''reset'', ''--hard'', ''origin/'' @ branch]
                          None w4 of
                     None \<Rightarrow> None
                   | Some (Inr out', w5) \<Rightarrow>
                       Some (Inr (),
                         syslog LOG_INFO ''%s was successfully updated.'' [path] w5)
                   | Some (Inl (CalledProcessError out'), w5) \<Rightarrow>
                       Some (Inr (),
                         syslog LOG_WARNING
                           ''Command `git reset --hard origin/%s` failed in %s: %s''
                           [branch, path, out'] w5)
                   | Some (Inl e, w5) \<Rightarrow> Some (Inl e, w5))))"

definition do_svn_up :: "string \<Rightarrow> world \<Rightarrow> unit result" where
  "do_svn_up path w =
     (case os_chdir path w of
        Inl e \<Rightarrow> Some (Inl e, w)
      | Inr w1 \<Rightarrow>
          (case check_output [SVN_CMD, ''up''] (Some CHECKOUT_TIMEOUT) w1 of
             None \<Rightarrow> None
           | Some (Inr out, w2) \<Rightarrow>
               Some (Inr (),
                 syslog LOG_INFO ''Successfully completed `svn up` into %s'' [path] w2)
           | Some (Inl (CalledProcessError out), w2) \<Rightarrow>
               Some (Inr (),
                 syslog LOG_WARNING ''Command `svn up` failed in %s: %s'' [path, out] w2)
           | Some (Inl TimeoutExpired, w2) \<Rightarrow>
               Some (Inr (),
                 syslog LOG_WARNING ''Could not run svn up: operation timed out'' [] w2)
           | Some (Inl e, w2) \<Rightarrow> Some (Inl e, w2)))"

section \<open>The reconciliation engine\<close>

definition read_checkout :: "world \<Rightarrow> (string \<times> string) result" where
  \<comment> \<open>the \<open>try\<close> block of \<open>deploy_site\<close>: the recorded origin and the current branch,
      each read without a timeout, decoded and stripped\<close>
  "read_checkout w =
     (case check_output [GIT_CMD, ''config'', ''--get'', ''remote.origin.url''] None w of
        None \<Rightarrow> None
      | Some (Inl e, w1) \<Rightarrow> Some (Inl e, w1)
      | Some (Inr out1, w1) \<Rightarrow>
          (case decode_utf8 out1 of
             Inl e \<Rightarrow> Some (Inl e, w1)
           | Inr text1 \<Rightarrow>
               (case check_output [GIT_CMD, ''symbolic-ref'', ''--short'', ''HEAD''] None w1 of
                  None \<Rightarrow> None
                | Some (Inl e, w2) \<Rightarrow> Some (Inl e, w2)
                | Some (Inr out2, w2) \<Rightarrow>
                    (case decode_utf8 out2 of
                       Inl e \<Rightarrow> Some (Inl e, w2)
                     | Inr text2 \<Rightarrow>
                         Some (Inr (str_strip text1, str_strip text2), w2)))))"

definition deploy_existing ::
  "string \<Rightarrow> string \<Rightarrow> string \<Rightarrow> string \<Rightarrow> world \<Rightarrow> unit result" where
  \<comment> \<open>\<open>deploy_site\<close> from \<open>if os.path.isdir(path):\<close> on, when the directory exists\<close>
  "deploy_existing path source branch deploytype w0 =
     (let w = syslog LOG_INFO ''%s is an existing staging dir, checking it...'' [path] w0
      in if os_path_isdir w (os_path_join path [''.svn''])
         then (if deploytype = ''svn''
               then do_svn_up path
                      (syslog LOG_WARNING
                         ''%s is a subversion directory, running svn up to update''
                         [path] w)
               else checkout_git_repo path source branch
                      (syslog LOG_WARNING
                         ''%s appears to be an old subversion directory, clobbering it!''
                         [path] w))
         else
           (case os_chdir path w of
              Inl e \<Rightarrow> Some (Inl e, w)
            | Inr w1 \<Rightarrow>
                (case read_checkout w1 of
                   None \<Rightarrow> None
                 | Some (Inl (CalledProcessError out), w2) \<Rightarrow>
                     checkout_git_repo path source branch
                       (syslog LOG_WARNING
                          ''Could not determine original source of %s, clobbering: %s''
                          [path, out] w2)
                 | Some (Inl e, w2) \<Rightarrow> Some (Inl e, w2)
                 | Some (Inr (csource, cbranch), w2) \<Rightarrow>
                     (if csource \<noteq> source
                      then checkout_git_repo path source branch
                             (syslog LOG_INFO
                                ''Source repo for %s is not %s (%s), clobbering repo.''
                                [path, source, csource] w2)
                      else if cbranch \<noteq> branch
                      then checkout_git_repo path source branch
                             (syslog LOG_INFO
                                ''Source branch for %s is not %s (%s), clobbering repo.''
                                [path, branch, cbranch] w2)
                      else do_git_pull path branch
                             (syslog LOG_INFO
                                ''Source and branch match on-disk, doing git pull''
                                [] w2)))))"

definition prevalidation :: "string \<Rightarrow> string \<Rightarrow> string \<Rightarrow> string \<Rightarrow> world \<Rightarrow> event option" where
  \<comment> \<open>the four checks under \<open># Pre-validation\<close>, in order: the warning logged by the
      first one that fails, or \<open>None\<close> when the request passes\<close>
  "prevalidation deploydir source branch deploytype w =
     (let path = os_path_join ROOT_DIR [deploydir]
      in if \<not> re_match_plus deploydir_char (str_replace ''.apache.org'' [] deploydir)
            \<or> str_contains ''..'' deploydir
         then Some (Syslog LOG_WARNING ''Invalid deployment dir, %s!'' [deploydir])
         else if os_path_abspath (cwd w) path \<noteq> path
         then Some (Syslog LOG_WARNING
                ''Invalid deployment dir, %s! (translated path diverges from base web site path)''
                [deploydir])
         else if deploytype \<noteq> ''svn''
                 \<and> \<not> startswith source ''https://gitbox.apache.org/repos/asf/''
                 \<and> \<not> startswith source ''https://github.com/apache/''
         then Some (Syslog LOG_WARNING ''Invalid source URL, %s!'' [source])
         else if branch = []
         then Some (Syslog LOG_WARNING ''Invalid branch, %s!'' [branch])
         else None)"

definition deploy_path :: "string \<Rightarrow> string \<Rightarrow> string" where
  \<comment> \<open>the directory a validated request is deployed to: blogs have a different root\<close>
  "deploy_path deploydir deploytype =
     (if deploytype = ''blog''
      then os_path_join BLOGS_ROOT_DIR [str_replace ''.blog'' [] deploydir]
      else os_path_join ROOT_DIR [deploydir])"

definition deploy_site ::
  "string \<Rightarrow> string \<Rightarrow> string \<Rightarrow> string \<Rightarrow> string \<Rightarrow> world \<Rightarrow> unit result" where
  "deploy_site deploydir source branch committer deploytype w =
     (case prevalidation deploydir source branch deploytype w of
        Some warning \<Rightarrow> Some (Inr (), w\<lparr>trace := trace w @ [warning]\<rparr>)
      | None \<Rightarrow>
          (let path = deploy_path deploydir deploytype
           in if os_path_isdir w path
              then deploy_existing path source branch deploytype w
              else if deploytype = ''svn''
              then Some (Inr (),
                     syslog LOG_INFO
                       ''%s is a not an existing svn checkout, ignoring payload for now''
                       [path] w)
              else checkout_git_repo path source branch
                     (syslog LOG_INFO ''%s is a new staging dir, doing fresh checkout''
                        [path] w)))"

section \<open>The deploy queue and the drain loop\<close>

record request =
  \<comment> \<open>the list \<open>[source, branch, committer, root_deployment, deploytype]\<close> queued
      under a \<open>deploydir\<close>, unpacked by the drain loop as
      \<open>source, branch, committer, hostname, deploytype\<close>\<close>
  r_source :: string
  r_branch :: string
  r_committer :: string
  r_hostname :: string
  r_deploytype :: string

type_synonym queue = "(string \<times> request) list"
  \<comment> \<open>\<open>PUBSUB_QUEUE\<close>: a Python dict, in insertion order\<close>

definition upsert :: "string \<Rightarrow> request \<Rightarrow> queue \<Rightarrow> queue" where
  \<comment> \<open>\<open>PUBSUB_QUEUE[deploydir] = [...]\<close>: an existing key keeps its place and takes the
      new value, a new key goes last\<close>
  "upsert deploydir opts q = AList.update deploydir opts q"

definition drain :: "queue \<Rightarrow> queue \<times> queue" where
  \<comment> \<open>\<open>XPQ = PUBSUB_QUEUE; PUBSUB_QUEUE = {}\<close>: the snapshot and the new live queue\<close>
  "drain q = (q, [])"

record config =
  PUBLISH :: bool
  FASTLY_API_KEY :: string
  svnconfig :: "(string \<times> (string \<times> string) list) list"

definition purges :: "config \<Rightarrow> string \<Rightarrow> request \<Rightarrow> world \<Rightarrow> unit result" where
  \<comment> \<open>the statements under \<open>if PUBLISH and FASTLY_API_KEY:\<close>\<close>
  "purges cfg deploydir opts w =
     (case (if r_deploytype opts = ''blog''
            then purge_site (FASTLY_API_KEY cfg)
                   (str_replace ''.blog'' [] deploydir @ ''.blog.apache.org'')
                   FASTLY_BLOGS_SVC_ID w
            else Some (Inr (), w)) of
        None \<Rightarrow> None
      | Some (Inl e, w1) \<Rightarrow> Some (Inl e, w1)
      | Some (Inr u, w1) \<Rightarrow>
          (case purge_site (FASTLY_API_KEY cfg) (r_hostname opts) FASTLY_SVC_ID w1 of
             None \<Rightarrow> None
           | Some (Inl e, w2) \<Rightarrow> Some (Inl e, w2)
           | Some (Inr u', w2) \<Rightarrow>
               (if r_hostname opts = ''www.apache.org''
                then purge_site (FASTLY_API_KEY cfg) ''apache.org'' FASTLY_SVC_ID w2
                else Some (Inr (), w2))))"

definition run_entry :: "config \<Rightarrow> string \<Rightarrow> request \<Rightarrow> world \<Rightarrow> world option" where
  \<comment> \<open>the body of \<open>for deploydir, opts in XPQ.items()\<close>: the \<open>try\<close> and its
      \<open>except Exception\<close>; \<open>None\<close> when it never finishes\<close>
  "run_entry cfg deploydir opts w =
     (case (case deploy_site deploydir (r_source opts) (r_branch opts)
                   (r_committer opts) (r_deploytype opts) w of
              None \<Rightarrow> None
            | Some (Inl e, w1) \<Rightarrow> Some (Inl e, w1)
            | Some (Inr u, w1) \<Rightarrow>
                (if PUBLISH cfg \<and> FASTLY_API_KEY cfg \<noteq> []
                 then purges cfg deploydir opts w1
                 else Some (Inr (), w1))) of
        None \<Rightarrow> None
      | Some (Inl e, w2) \<Rightarrow>
          Some (w2\<lparr>trace := trace w2 @
                  [SyslogExn LOG_WARNING ''BORK: Could not deploy to %s: %s''
                     [deploydir] e]\<rparr>)
      | Some (Inr u, w2) \<Rightarrow> Some w2)"

fun run_entries :: "config \<Rightarrow> queue \<Rightarrow> world \<Rightarrow> world option" where
  \<comment> \<open>the \<open>for\<close> loop over the snapshot\<close>
  "run_entries cfg [] w = Some w"
| "run_entries cfg ((deploydir, opts) # xpq) w =
     (case run_entry cfg deploydir opts w of
        None \<Rightarrow> None
      | Some w' \<Rightarrow> run_entries cfg xpq w')"

definition run_cycle :: "config \<Rightarrow> queue \<Rightarrow> world \<Rightarrow> (queue \<times> world) option" where
  \<comment> \<open>one round of \<open>while True:\<close> in \<open>deploy.run\<close>: the live queue and the world after
      it (the sleep of five seconds leaves both as they are)\<close>
  "run_cycle cfg q w =
     (case drain q of
        (xpq, q') \<Rightarrow>
          (case run_entries cfg xpq w of
             None \<Rightarrow> None
           | Some w' \<Rightarrow> Some (q', w')))"

section \<open>The event normalizer\<close>

text \<open>
  A message of the stream is a decoded JSON value. Python reads its fields without
  checking their types, so the model keeps the value untyped and raises where Python
  does. JSON numbers are integers here. The queue holds strings only: where the program
  would format or store a value that is neither a string nor \<open>None\<close> nor a boolean, the
  model stops with \<open>Unmodelled\<close> rather than guess a rendering.
\<close>

datatype pyval =
    PNone
  | PBool bool
  | PInt int
  | PStr string
  | PList "pyval list"
  | PDict "(string \<times> pyval) list" \<comment> \<open>a dict, looked up with \<open>map_of\<close>\<close>

datatype 'a outcome =
    Returns 'a world
  | Raises exn world
  | Unmodelled

definition attempt :: "exn + 'a \<Rightarrow> world \<Rightarrow> ('a \<Rightarrow> 'b outcome) \<Rightarrow> 'b outcome" where
  \<comment> \<open>go on with the value of an expression, or raise what it raises\<close>
  "attempt r w f = (case r of Inl e \<Rightarrow> Raises e w | Inr x \<Rightarrow> f x)"

definition andthen :: "'a outcome \<Rightarrow> ('a \<Rightarrow> world \<Rightarrow> 'b outcome) \<Rightarrow> 'b outcome" where
  \<comment> \<open>one statement after another\<close>
  "andthen m f =
     (case m of
        Returns x w \<Rightarrow> f x w
      | Raises e w \<Rightarrow> Raises e w
      | Unmodelled \<Rightarrow> Unmodelled)"

definition rendered :: "string option \<Rightarrow> (string \<Rightarrow> 'b outcome) \<Rightarrow> 'b outcome" where
  \<comment> \<open>go on with the text of a value, when the model has it\<close>
  "rendered t f = (case t of None \<Rightarrow> Unmodelled | Some s \<Rightarrow> f s)"

fun py_truthy :: "pyval \<Rightarrow> bool" where
  "py_truthy PNone = False"
| "py_truthy (PBool b) = b"
| "py_truthy (PInt i) = (i \<noteq> 0)"
| "py_truthy (PStr s) = (s \<noteq> [])"
| "py_truthy (PList xs) = (xs \<noteq> [])"
| "py_truthy (PDict d) = (d \<noteq> [])"

fun py_str :: "pyval \<Rightarrow> string option" where
  \<comment> \<open>\<open>str(v)\<close>, as \<open>%s\<close> and f-strings render a value\<close>
  "py_str PNone = Some ''None''"
| "py_str (PBool b) = Some (if b then ''True'' else ''False'')"
| "py_str (PStr s) = Some s"
| "py_str v = None"

fun py_in :: "string \<Rightarrow> pyval \<Rightarrow> exn + bool" where
  \<comment> \<open>\<open>k in v\<close> for a string \<open>k\<close>\<close>
  "py_in k (PDict d) = Inr (map_of d k \<noteq> None)"
| "py_in k (PStr s) = Inr (str_contains k s)"
| "py_in k (PList xs) = Inr (PStr k \<in> set xs)"
| "py_in k v = Inl TypeError"

fun py_index :: "pyval \<Rightarrow> string \<Rightarrow> exn + pyval" where
  \<comment> \<open>\<open>v[k]\<close> for a string \<open>k\<close>\<close>
  "py_index (PDict d) k = (case map_of d k of None \<Rightarrow> Inl (KeyError k) | Some x \<Rightarrow> Inr x)"
| "py_index v k = Inl TypeError"

fun py_get :: "pyval \<Rightarrow> string \<Rightarrow> pyval \<Rightarrow> exn + pyval" where
  \<comment> \<open>\<open>v.get(k, default)\<close>: only a dict has the method\<close>
  "py_get (PDict d) k dflt = Inr (case map_of d k of None \<Rightarrow> dflt | Some x \<Rightarrow> x)"
| "py_get v k dflt = Inl AttributeError"

fun is_str :: "pyval \<Rightarrow> bool" where
  "is_str (PStr s) = True"
| "is_str v = False"

definition SVN_UUIDS :: "(string \<times> string) list" where
  "SVN_UUIDS =
     [(''13f79535-47bb-0310-9956-ffa450edef68'', ''https://svn-master.apache.org/repos/asf''),
      (''90ea9780-b833-de11-8433-001ec94261de'', ''https://svn-master.apache.org/repos/infra'')]"

definition PUBSUB_URL :: string where
  "PUBSUB_URL = ''https://pubsub.apache.org:2070/''"

definition changed_parent :: "pyval \<Rightarrow> exn + string" where
  \<comment> \<open>\<open>common_parent(commit.get("changed", []))\<close>: the loops run over the items of a
      list, the characters of a string or the keys of a dict; a list item that is no
      string raises \<open>TypeError\<close> (from \<open>os.path.split\<close>) or \<open>AttributeError\<close> (from
      \<open>startswith\<close>), whichever loop meets it first\<close>
  "changed_parent changed =
     (case changed of
        PList xs \<Rightarrow>
          (if list_all is_str xs then Inr (common_parent [s. PStr s \<leftarrow> xs])
           else Inl TypeOrAttributeError)
      | PStr s \<Rightarrow> Inr (common_parent (utf8_chars s))
      | PDict d \<Rightarrow> Inr (common_parent (map fst d))
      | _ \<Rightarrow> Inl TypeError)"

definition fake_publish :: "string \<Rightarrow> string \<Rightarrow> pyval \<Rightarrow> pyval" where
  \<comment> \<open>the publish payload made up for a tracked svn target\<close>
  "fake_publish target svn_url pusher =
     (let project =
            (if str_contains ''/www/'' target
             then str_replace ''.apache.org'' [] (os_path_split target ! 1)
             else ''infra'')
      in PDict [(''publish'',
           PDict [(''project'', PStr project), (''source'', PStr svn_url),
                  (''pusher'', pusher), (''deploytype'', PStr ''svn''),
                  (''target'', PStr target)])])"

fun track_loop ::
  "string \<Rightarrow> pyval \<Rightarrow> (string \<times> string) list \<Rightarrow> pyval \<Rightarrow> world \<Rightarrow> pyval \<times> world" where
  \<comment> \<open>\<open>for target, url in deployer.svnconfig.get("track", {}).items()\<close>\<close>
  "track_loop svn_url pusher [] payload w = (payload, w)"
| "track_loop svn_url pusher ((target, url) # items) payload w =
     (if startswith svn_url url \<and> startswith target ''/''
      then track_loop svn_url pusher items (fake_publish target svn_url pusher)
             (w\<lparr>trace := trace w @
                [Print (''Found SVN match for '' @ url @ '' in '' @ target
                        @ '', faking a publish payload'')]\<rparr>)
      else track_loop svn_url pusher items payload w)"

definition svn_commit :: "config \<Rightarrow> (string \<times> pyval) list \<Rightarrow> pyval \<Rightarrow> world \<Rightarrow> pyval outcome" where
  \<comment> \<open>the body of the \<open>if\<close> under \<open># svnpubsub -> publish conversion\<close>: the payload to
      go on with\<close>
  "svn_commit cfg commit payload w =
     (case (case map_of commit ''repository'' of None \<Rightarrow> PStr [] | Some v \<Rightarrow> v) of
        PList xs \<Rightarrow> Raises TypeError w \<comment> \<open>unhashable\<close>
      | PDict d \<Rightarrow> Raises TypeError w
      | PStr svn_uuid \<Rightarrow>
          (case map_of SVN_UUIDS svn_uuid of
             None \<Rightarrow> Returns payload w
           | Some svn_root \<Rightarrow>
               attempt (changed_parent
                      (case map_of commit ''changed'' of None \<Rightarrow> PList [] | Some v \<Rightarrow> v)) w
                 (\<lambda>cp.
                    let svn_url = os_path_join svn_root [cp];
                        w1 = w\<lparr>trace := trace w @
                               [Print (''Found commit from '' @ svn_url @ ''...'')]\<rparr>
                    in if svnconfig cfg \<noteq> []
                       then (case track_loop svn_url
                                    (case map_of commit ''committer'' of
                                       None \<Rightarrow> PStr ''root'' | Some v \<Rightarrow> v)
                                    (case map_of (svnconfig cfg) ''track'' of
                                       None \<Rightarrow> [] | Some items \<Rightarrow> items)
                                    payload w1 of
                               (payload', w2) \<Rightarrow> Returns payload' w2)
                       else Returns payload w1))
      | v \<Rightarrow> Returns payload w)"

definition svn_conversion :: "config \<Rightarrow> pyval \<Rightarrow> world \<Rightarrow> pyval outcome" where
  \<comment> \<open>\<open>if "commit" in payload and isinstance(payload["commit"], dict) and
      payload["commit"].get("type", "") == "svn":\<close>\<close>
  "svn_conversion cfg payload w =
     attempt (py_in ''commit'' payload) w
       (\<lambda>has. if \<not> has then Returns payload w
          else attempt (py_index payload ''commit'') w
            (\<lambda>c. case c of
                    PDict commit \<Rightarrow>
                      (if (case map_of commit ''type'' of None \<Rightarrow> PStr [] | Some v \<Rightarrow> v)
                          = PStr ''svn''
                       then svn_commit cfg commit payload w
                       else Returns payload w)
                  | v \<Rightarrow> Returns payload w))"

definition staging_dir :: "pyval \<Rightarrow> pyval \<Rightarrow> world \<Rightarrow> pyval outcome" where
  \<comment> \<open>\<open>deploydir = project\<close> and, under \<open>if profile:\<close>, \<open>deploydir += "-%s" % profile\<close>\<close>
  "staging_dir project profile w =
     (if py_truthy profile
      then (case project of
              PStr s \<Rightarrow> rendered (py_str profile) (\<lambda>t. Returns (PStr (s @ ''-'' @ t)) w)
            | PList xs \<Rightarrow> Unmodelled \<comment> \<open>a list takes the characters as new items\<close>
            | v \<Rightarrow> Raises TypeError w)
      else Returns project w)"

definition publish_dir :: "pyval \<Rightarrow> pyval \<Rightarrow> world \<Rightarrow> pyval outcome" where
  \<comment> \<open>under \<open>if PUBLISH:\<close>, for the dict \<open>p = payload[expected_action]\<close>\<close>
  "publish_dir project p w =
     rendered (py_str project)
       (\<lambda>s. attempt (py_in ''target'' p) w
          (\<lambda>has. attempt (py_get p ''target'' PNone) w
             (\<lambda>hostdir. Returns (if has \<and> py_truthy hostdir then hostdir
                                 else PStr (s @ ''.apache.org'')) w)))"

definition with_subdir :: "string \<Rightarrow> pyval \<Rightarrow> pyval \<Rightarrow> world \<Rightarrow> pyval outcome" where
  \<comment> \<open>\<open>if subdir and re.match(r"^[-._a-zA-Z0-9/]+$", subdir):\<close> and its body\<close>
  "with_subdir dtype deploydir subdir w =
     (if \<not> py_truthy subdir then Returns deploydir w
      else (case subdir of
              PStr sd \<Rightarrow>
                (if re_match_plus subdir_char sd
                 then (case deploydir of
                         PStr d \<Rightarrow>
                           Returns (PStr (os_path_join d [sd]))
                             (syslog LOG_INFO
                                ''Extending deployment [%s] dir %s with subdir %s''
                                [dtype, d, sd] w)
                       | v \<Rightarrow> rendered (py_str v)
                                (\<lambda>t. Raises TypeError
                                   (syslog LOG_INFO
                                      ''Extending deployment [%s] dir %s with subdir %s''
                                      [dtype, t, sd] w)))
                 else Returns deploydir w)
            | v \<Rightarrow> Raises TypeError w))"

definition enqueue ::
  "string \<Rightarrow> pyval \<Rightarrow> pyval \<Rightarrow> pyval \<Rightarrow> string \<Rightarrow> pyval \<Rightarrow> pyval \<Rightarrow> queue \<Rightarrow> world
     \<Rightarrow> queue outcome" where
  \<comment> \<open>the body of \<open>if deploydir and source and branch:\<close> after the subdir\<close>
  "enqueue dtype project deploydir source branch pusher root_deployment q w =
     rendered (py_str project)
       (\<lambda>proj.
          let deploydir' = (if dtype = ''blog'' then PStr (proj @ ''.blog'') else deploydir)
          in case deploydir' of
               PStr key \<Rightarrow>
                 (case (source, pusher, root_deployment) of
                    (PStr src, PStr who, PStr root) \<Rightarrow>
                      Returns
                        (upsert key
                           \<lparr>r_source = src, r_branch = branch, r_committer = who,
                            r_hostname = root, r_deploytype = dtype\<rparr> q)
                        (syslog LOG_INFO
                           ''Found deploy [%s] delivery for %s, deploying as %s''
                           [dtype, proj, key] w)
                  | other \<Rightarrow> Unmodelled)
             | v \<Rightarrow> Unmodelled \<comment> \<open>a key that is no string; a list or a dict would
                                 raise \<open>TypeError\<close> after a log line the model cannot render\<close>)"

definition normalize :: "config \<Rightarrow> pyval \<Rightarrow> queue \<Rightarrow> world \<Rightarrow> queue outcome" where
  \<comment> \<open>\<open>if expected_action in payload:\<close> and its body\<close>
  "normalize cfg payload q w =
     (let expected_action = (if \<not> PUBLISH cfg then ''staging'' else ''publish'')
      in attempt (py_in expected_action payload) w
       (\<lambda>has. if \<not> has then Returns q w
          else attempt (py_index payload expected_action) w
       (\<lambda>p. attempt (py_get p ''project'' PNone) w
       (\<lambda>project. attempt (py_get p ''source'' PNone) w
       (\<lambda>source. attempt (py_get p ''branch'' (PStr ''asf-site'')) w
       (\<lambda>b. case b of
               PStr b0 \<Rightarrow>
                 (let branch = str_replace ''refs/heads/'' [] b0
                  in attempt (py_get p ''profile'' (PStr [])) w
       (\<lambda>profile. attempt (py_get p ''pusher'' (PStr ''root'')) w
       (\<lambda>pusher. attempt (py_get p ''subdir'' (PStr [])) w
       (\<lambda>subdir. attempt (py_get p ''type'' (PStr ''website'')) w
       (\<lambda>t. let dtype = (case t of
                           PStr s \<Rightarrow> if s \<in> {''website'', ''blog'', ''svn''} then s
                                     else ''website''
                         | v \<Rightarrow> ''website'')
             in andthen (staging_dir project profile w)
                  (\<lambda>staging w1.
                     andthen (if PUBLISH cfg then publish_dir project p w1
                              else Returns staging w1)
                       (\<lambda>deploydir w2.
                          if py_truthy deploydir \<and> py_truthy source \<and> branch \<noteq> []
                          then andthen (with_subdir dtype deploydir subdir w2)
                                 (\<lambda>deploydir' w3.
                                    enqueue dtype project deploydir' source branch pusher
                                      deploydir q w3)
                          else Returns q w2)))))))
             | v \<Rightarrow> Raises AttributeError w))))))"


definition listen_body :: "config \<Rightarrow> pyval \<Rightarrow> queue \<Rightarrow> world \<Rightarrow> queue outcome" where
  \<comment> \<open>the \<open>try\<close> block of \<open>listen\<close>, for one payload\<close>
  "listen_body cfg payload q w =
     andthen (svn_conversion cfg payload w) (\<lambda>payload' w1. normalize cfg payload' q w1)"

fun is_ValueError :: "exn \<Rightarrow> bool" where
  \<comment> \<open>what \<open>except ValueError\<close> catches: the class and its subclass\<close>
  "is_ValueError (ValueError detail) = True"
| "is_ValueError UnicodeDecodeError = True"
| "is_ValueError e = False"

fun listen :: "config \<Rightarrow> pyval list \<Rightarrow> queue \<Rightarrow> world \<Rightarrow> queue outcome" where
  \<comment> \<open>\<open>async for payload in asfpy.pubsub.listen(...)\<close> over the payloads the stream
      yields until it closes: only \<open>ValueError\<close> is caught\<close>
  "listen cfg [] q w =
     Returns q
       (syslog LOG_WARNING (''Disconnected from '' @ PUBSUB_URL @ '', reconnecting'') [] w)"
| "listen cfg (payload # payloads) q w =
     (case listen_body cfg payload q w of
        Returns q' w' \<Rightarrow> listen cfg payloads q' w'
      | Raises e w' \<Rightarrow>
          (if is_ValueError e
           then listen cfg payloads q
                  (w'\<lparr>trace := trace w' @
                      [SyslogExn LOG_WARNING
                         (''Bad JSON in payload from '' @ PUBSUB_URL @ '': '') [] e]\<rparr>)
           else Raises e w')
      | Unmodelled \<Rightarrow> Unmodelled)"

section \<open>Projections of the trace and example worlds\<close>

fun is_action :: "event \<Rightarrow> bool" where
  \<comment> \<open>the file-system and VCS actions among the events\<close>
  "is_action (Rmtree p) = True"
| "is_action (Exec argv dir timeout) = True"
| "is_action e = False"

definition actions :: "event list \<Rightarrow> event list" where
  "actions evs = filter is_action evs"

fun is_post :: "event \<Rightarrow> bool" where
  "is_post (Post url key) = True"
| "is_post e = False"

definition posts :: "event list \<Rightarrow> event list" where
  \<comment> \<open>the purge requests among the events\<close>
  "posts evs = filter is_post evs"

definition completes :: "process \<Rightarrow> nat option \<Rightarrow> bool" where
  \<comment> \<open>the process exits with status 0, and within the timeout when there is one\<close>
  "completes p timeout =
     (case p of
        Hangs \<Rightarrow> False
      | Exits status out seconds \<Rightarrow>
          status = 0 \<and> (case timeout of None \<Rightarrow> True | Some t \<Rightarrow> seconds \<le> t))"

definition starts :: "world \<Rightarrow> string list \<Rightarrow> bool" where
  \<comment> \<open>the command can be started in the current directory: no argument holds a NUL and
      the program can be executed\<close>
  "starts w argv =
     (\<not> list_ex has_nul argv
      \<and> (case spawn w argv (cwd w) of CannotStart msg \<Rightarrow> False | _ \<Rightarrow> True))"

definition clone_argv :: "string \<Rightarrow> string \<Rightarrow> string \<Rightarrow> string list" where
  "clone_argv path source branch =
     [GIT_CMD, ''clone'', ''-b'', branch, ''--single-branch'', source, path]"

definition fetch_argv :: "string \<Rightarrow> string list" where
  "fetch_argv branch = [GIT_CMD, ''fetch'', ''origin'', branch]"

definition reset_argv :: "string \<Rightarrow> string list" where
  "reset_argv branch = [GIT_CMD, ''reset'', ''--hard'', ''origin/'' @ branch]"

definition gitbox_foo :: string where
  "gitbox_foo = ''https://gitbox.apache.org/repos/asf/foo.git''"

definition git_foo :: "process \<Rightarrow> process \<Rightarrow> process \<Rightarrow> string list \<Rightarrow> string \<Rightarrow> process" where
  \<comment> \<open>git in a checkout of branch \<open>asf-site\<close> of \<open>foo.git\<close>, with the given behaviour of
      \<open>fetch\<close>, \<open>reset\<close> and \<open>clone\<close>\<close>
  "git_foo fetch reset clone argv dir =
     (if hd (tl argv) = ''config'' then Exits 0 (gitbox_foo @ [CHR 0x0A]) 0
      else if hd (tl argv) = ''symbolic-ref'' then Exits 0 (''asf-site'' @ [CHR 0x0A]) 0
      else if hd (tl argv) = ''fetch'' then fetch
      else if hd (tl argv) = ''reset'' then reset
      else clone)"

definition world_foo :: "process \<Rightarrow> process \<Rightarrow> process \<Rightarrow> world" where
  \<comment> \<open>\<open>/www/foo.apache.org\<close> holds that checkout; the purge endpoint answers\<close>
  "world_foo fetch reset clone =
     \<lparr>isdir = (\<lambda>d. d = ''/www'' \<or> d = ''/www/foo.apache.org''), islink = (\<lambda>d. False),
      cwd = ''/'',
      spawn = git_foo fetch reset clone,
      effect = (\<lambda>argv dir disk. disk),
      purge_reply = (\<lambda>url. Some ''ok''), trace = []\<rparr>"

definition foo_dir :: string where "foo_dir = ''/www/foo.apache.org''"

definition world_foo_ok :: world where
  "world_foo_ok = world_foo (Exits 0 [] 2) (Exits 0 [] 1) (Exits 0 [] 9)"

definition world_foo_read :: "world \<Rightarrow> world" where
  "world_foo_read w =
     ran [GIT_CMD, ''symbolic-ref'', ''--short'', ''HEAD''] None
       (ran [GIT_CMD, ''config'', ''--get'', ''remote.origin.url''] None
          ((syslog LOG_INFO ''%s is an existing staging dir, checking it...'' [foo_dir] w)
             \<lparr>cwd := foo_dir\<rparr>))"

definition world_foo_noclone :: world where
  \<comment> \<open>as \<open>world_foo_ok\<close>, but cloning fails\<close>
  "world_foo_noclone =
     world_foo (Exits 0 [] 2) (Exits 0 [] 1) (Exits 128 ''fatal: unable to access'' 3)"

definition world_foo_slow_fetch :: world where
  \<comment> \<open>\<open>git fetch\<close> needs 181 seconds\<close>
  "world_foo_slow_fetch = world_foo (Exits 0 [] 181) (Exits 0 [] 1) (Exits 0 [] 9)"

definition world_foo_reset_hangs :: world where
  \<comment> \<open>\<open>git reset --hard\<close> never exits\<close>
  "world_foo_reset_hangs = world_foo (Exits 0 [] 2) Hangs (Exits 0 [] 9)"

definition request_foo :: request where
  "request_foo =
     \<lparr>r_source = gitbox_foo, r_branch = ''asf-site'', r_committer = ''root'',
      r_hostname = ''foo.apache.org'', r_deploytype = ''website''\<rparr>"

definition request_bar :: request where
  "request_bar =
     \<lparr>r_source = ''https://gitbox.apache.org/repos/asf/bar.git'', r_branch = ''asf-site'',
      r_committer = ''root'', r_hostname = ''bar.apache.org'', r_deploytype = ''website''\<rparr>"

definition config_tlp :: config where
  \<comment> \<open>a publishing host that holds a Fastly key\<close>
  "config_tlp = \<lparr>PUBLISH = True, FASTLY_API_KEY = ''key'', svnconfig = []\<rparr>"

definition world_foo_undecodable :: world where
  \<comment> \<open>as \<open>world_foo_ok\<close>, but the recorded origin is the byte FF, which is no UTF-8\<close>
  "world_foo_undecodable =
     world_foo_ok
       \<lparr>spawn := (\<lambda>argv dir.
                    if hd (tl argv) = ''config'' then Exits 0 [CHR 0xFF, CHR 0x0A] 0
                    else git_foo (Exits 0 [] 2) (Exits 0 [] 1) (Exits 0 [] 9) argv dir)\<rparr>"

definition world_foo_partial :: world where
  \<comment> \<open>cloning never ends by itself, and the clone killed at the timeout leaves the
      directory it had created\<close>
  "world_foo_partial =
     (world_foo (Exits 0 [] 2) (Exits 0 [] 1) Hangs)
       \<lparr>effect := (\<lambda>argv dir (dirs, links).
                     if hd (tl argv) = ''clone'' then (\<lambda>d. dirs d \<or> d = foo_dir, links)
                     else (dirs, links))\<rparr>"

definition world_etc :: world where
  \<comment> \<open>\<open>/www\<close> and \<open>/etc\<close> exist; \<open>/etc\<close> is no git checkout, so every git command
      fails at once\<close>
  "world_etc =
     \<lparr>isdir = (\<lambda>d. d = ''/www'' \<or> d = ''/etc''), islink = (\<lambda>d. False),
      cwd = ''/'',
      spawn = (\<lambda>argv dir. Exits 128 ''fatal: not a git repository'' 0),
      effect = (\<lambda>argv dir disk. disk),
      purge_reply = (\<lambda>url. Some ''ok''), trace = []\<rparr>"

definition cp_ok :: "string list \<Rightarrow> string \<Rightarrow> bool" where
  \<comment> \<open>the loop invariant of \<open>top_directory\<close>\<close>
  "cp_ok files t =
     ((t = ''/'' \<or> list_all (\<lambda>fp. startswith fp t) files) \<and> endswith t ''/'')"

definition upserts :: "(string \<times> request) list \<Rightarrow> queue \<Rightarrow> queue" where
  \<comment> \<open>a sequence of upserts, in the order given\<close>
  "upserts ups q = fold (\<lambda>(deploydir, opts) q'. upsert deploydir opts q') ups q"

definition purge_url :: "string \<Rightarrow> string \<Rightarrow> string" where
  "purge_url svcid host = ''https://api.fastly.com/service/'' @ svcid @ ''/purge/'' @ host"

definition expected_purges :: "config \<Rightarrow> string \<Rightarrow> request \<Rightarrow> event list" where
  \<comment> \<open>the purge requests of one entry when none of them raises\<close>
  "expected_purges cfg deploydir opts =
     (if r_deploytype opts = ''blog''
      then [Post (purge_url FASTLY_BLOGS_SVC_ID
                    (str_replace ''.blog'' [] deploydir @ ''.blog.apache.org''))
              (FASTLY_API_KEY cfg)]
      else [])
     @ [Post (purge_url FASTLY_SVC_ID (r_hostname opts)) (FASTLY_API_KEY cfg)]
     @ (if r_hostname opts = ''www.apache.org''
        then [Post (purge_url FASTLY_SVC_ID ''apache.org'') (FASTLY_API_KEY cfg)]
        else [])"

definition request_untrusted :: request where
  \<comment> \<open>a request whose source is not one of the trusted origins\<close>
  "request_untrusted =
     \<lparr>r_source = ''https://example.org/foo.git'', r_branch = ''asf-site'',
      r_committer = ''root'', r_hostname = ''foo.apache.org'', r_deploytype = ''website''\<rparr>"

definition acts_on :: "string \<Rightarrow> event \<Rightarrow> bool" where
  \<comment> \<open>an action of the program that has \<open>path\<close> as its object: removing it, running a
      command in it, or cloning into it from the deployment root\<close>
  "acts_on path e =
     (case e of
        Rmtree p \<Rightarrow> p = path
      | Exec argv dir timeout \<Rightarrow>
          dir = canonical path
          \<or> (dir = ROOT_DIR \<and> take 2 argv = [GIT_CMD, ''clone''] \<and> last argv = path)
      | _ \<Rightarrow> True)"

definition only_on :: "string \<Rightarrow> world \<Rightarrow> world \<Rightarrow> bool" where
  \<comment> \<open>from \<open>w\<close> to \<open>w'\<close> the trace grew by events that act on \<open>path\<close> or on nothing\<close>
  "only_on path w w' =
     (take (length (trace w)) (trace w') = trace w
      \<and> list_all (acts_on path) (drop (length (trace w)) (trace w')))"

definition quiet :: "world \<Rightarrow> world \<Rightarrow> bool" where
  \<comment> \<open>from \<open>w\<close> to \<open>w'\<close> no purge request was sent and the endpoint is the same\<close>
  "quiet w w' = (posts (trace w') = posts (trace w) \<and> purge_reply w' = purge_reply w)"

definition publish_foo :: pyval where
  \<comment> \<open>\<open>{"publish": {"project": "foo", "source": ".../foo.git", "branch": "asf-site"}}\<close>\<close>
  "publish_foo =
     PDict [(''publish'',
       PDict [(''project'', PStr ''foo''), (''source'', PStr gitbox_foo),
              (''branch'', PStr ''asf-site'')])]"

definition publish_null_branch :: pyval where
  \<comment> \<open>\<open>{"publish": {"project": "bar", "source": ".../bar.git", "branch": null}}\<close>\<close>
  "publish_null_branch =
     PDict [(''publish'',
       PDict [(''project'', PStr ''bar''),
              (''source'', PStr ''https://gitbox.apache.org/repos/asf/bar.git''),
              (''branch'', PNone)])]"

section \<open>Properties of \<open>common_parent\<close>\<close>

lemma endswith_code: "endswith s p = prefix (rev p) (rev s)"
  by (simp add: endswith_def suffix_to_prefix)

lemma cp_ok_step: "cp_ok files t \<Longrightarrow> cp_ok files (common_parent_step files bits i t)"
  by (auto simp: cp_ok_def common_parent_step_def Let_def endswith_def)

lemma cp_ok_steps:
  "cp_ok files t \<Longrightarrow> cp_ok files (fold (common_parent_step files bits) is t)"
  by (induction "is" arbitrary: t) (auto simp: cp_ok_step)

lemma cp_ok_file: "cp_ok files t \<Longrightarrow> cp_ok files (common_parent_file files f t)"
  by (auto simp: common_parent_file_def Let_def cp_ok_steps)

lemma cp_ok_files:
  "cp_ok files t \<Longrightarrow> cp_ok files (fold (common_parent_file files) fs t)"
  by (induction fs arbitrary: t) (auto simp: cp_ok_file)

lemma cp_ok_common_parent: "cp_ok files (common_parent files)"
proof -
  have "cp_ok files ''/''" by (simp add: cp_ok_def endswith_def)
  then have "cp_ok files (fold (common_parent_file files) files ''/'')"
    by (rule cp_ok_files)
  then show ?thesis
    by (auto simp: common_parent_def Let_def cp_ok_def endswith_def)
qed

lemmas common_parent_eval =
  common_parent_def common_parent_file_def common_parent_step_def
  os_path_split_def rstrip_sep_def startswith_def endswith_code

text \<open>
  What holds of every input: the result ends in a slash and is the root or a prefix of
  every path, and a prefix of every path when all of them are absolute. Two paths in
  one directory get that directory.
\<close>

lemma common_parent_root_or_prefix:
  "(common_parent P = ''/'' \<or> (\<forall>p \<in> set P. prefix (common_parent P) p))
   \<and> endswith (common_parent P) ''/''
   \<and> ((\<forall>p \<in> set P. startswith p ''/'') \<longrightarrow> (\<forall>p \<in> set P. prefix (common_parent P) p))
   \<and> common_parent [] = ''/''
   \<and> common_parent [''/a''] = ''/''"
proof -
  have ok: "cp_ok P (common_parent P)" by (rule cp_ok_common_parent)
  have e: "common_parent [] = ''/''" by (simp add: common_parent_def)
  have a: "common_parent [''/a''] = ''/''"
    by (simp add: common_parent_eval)
  from ok e a show ?thesis
    by (auto simp: cp_ok_def list_all_iff startswith_def)
qed

lemma common_parent_same_directory:
  "common_parent [''/a/b/c.txt'', ''/a/b/d.txt''] = ''/a/b/''"
  by (simp add: common_parent_eval)

text \<open>
  C2 (the code at the failing input). \<open>common_parent\<close> takes the components of a path
  from \<open>os.path.split\<close>, which returns the pair of the directory and the file name, not
  the list of all components. The only candidate ever tried is therefore the directory
  of a file, and two files whose directories differ get the root, however much of their
  paths they share: for \<open>/a/b/c\<close> and \<open>/a/d/e\<close> the result is \<open>/\<close> although \<open>/a/\<close> is a
  deeper directory prefix of both, and for \<open>a/b/c\<close> and \<open>a/d/e\<close> the result \<open>/\<close> is not
  even a prefix of the paths.
\<close>

theorem common_parent_misses_shared_directory:
  "os_path_split ''/a/b/c'' = [''/a/b'', ''c'']
   \<and> common_parent [''/a/b/c'', ''/a/d/e''] = ''/''
   \<and> prefix ''/a/'' ''/a/b/c'' \<and> prefix ''/a/'' ''/a/d/e''
   \<and> common_parent [''a/b/c'', ''a/d/e''] = ''/''
   \<and> \<not> prefix (common_parent [''a/b/c'', ''a/d/e'']) ''a/b/c''
   \<and> prefix ''a/'' ''a/b/c'' \<and> prefix ''a/'' ''a/d/e''"
  by (simp add: common_parent_eval Let_def)

section \<open>Validation of the deployment directory\<close>


lemma re_match_plus_nonempty: "re_match_plus cls s \<Longrightarrow> s \<noteq> []"
  by (auto simp: re_match_plus_def Let_def)


lemma str_replace_Nil: "old \<noteq> [] \<Longrightarrow> str_replace old new [] = []"
  by (subst str_replace.simps) simp

lemma os_path_join_relative:
  "\<not> startswith d ''/'' \<Longrightarrow> os_path_join ROOT_DIR [d] = ROOT_DIR @ ''/'' @ d"
  by (simp add: ROOT_DIR_def endswith_code)

lemma os_path_join_absolute: "startswith (os_path_join ROOT_DIR [d]) ''/''"
  by (simp add: ROOT_DIR_def endswith_code startswith_def)




section \<open>What the executor does to the world\<close>

lemma actions_append [simp]: "actions (xs @ ys) = actions xs @ actions ys"
  by (simp add: actions_def)

lemma actions_Nil [simp]: "actions [] = []"
  by (simp add: actions_def)

lemma actions_Cons [simp]:
  "actions (e # es) = (if is_action e then e # actions es else actions es)"
  by (simp add: actions_def)

lemma trace_syslog [simp]: "actions (trace (syslog p f a w)) = actions (trace w)"
  by (simp add: syslog_def)

lemma syslog_fields [simp]:
  "isdir (syslog p f a w) = isdir w" "cwd (syslog p f a w) = cwd w"
  "spawn (syslog p f a w) = spawn w" "purge_reply (syslog p f a w) = purge_reply w"
  "islink (syslog p f a w) = islink w" "effect (syslog p f a w) = effect w"
  by (simp_all add: syslog_def)

lemma resolve_syslog [simp]: "resolve (syslog p f a w) x = resolve w x"
  by (simp add: resolve_def)

lemma isdir_syslog [simp]: "os_path_isdir (syslog p f a w) x = os_path_isdir w x"
  by (simp add: os_path_isdir_def)

lemma starts_syslog [simp]: "starts (syslog p f a w) argv = starts w argv"
  by (simp add: starts_def)

lemma ran_fields [simp]:
  "isdir (ran argv t w) = fst (effect w argv (cwd w) (isdir w, islink w))"
  "islink (ran argv t w) = snd (effect w argv (cwd w) (isdir w, islink w))"
  "cwd (ran argv t w) = cwd w" "spawn (ran argv t w) = spawn w"
  "effect (ran argv t w) = effect w"
  "purge_reply (ran argv t w) = purge_reply w"
  "trace (ran argv t w) = trace w @ [Exec argv (cwd w) t]"
  by (simp_all add: ran_def split: prod.splits)

lemma resolve_ROOT [simp]: "resolve w ROOT_DIR = ROOT_DIR"
  by (simp add: resolve_def canonical_def ROOT_DIR_def startswith_def)

lemma resolve_cwd: "cwd w = cwd w' \<Longrightarrow> resolve w p = resolve w' p"
  by (simp add: resolve_def)


lemma within_self [simp]: "within p p"
  by (simp add: within_def)

lemma ROOT_DIR_no_nul [simp]: "\<not> has_nul ROOT_DIR"
  by (simp add: has_nul_def ROOT_DIR_def)

lemma check_output_cases:
  assumes "check_output argv timeout w = Some (r, w')"
  shows "(w' = w \<and> \<not> starts w argv \<and> (\<exists>t. r = Inl (ValueError t) \<or> r = Inl (OSError t)))
       \<or> (w' = ran argv timeout w \<and> starts w argv
          \<and> (if completes (spawn w argv (cwd w)) timeout then \<exists>out. r = Inr out
              else r = Inl TimeoutExpired \<and> timeout \<noteq> None
                   \<or> (\<exists>out. r = Inl (CalledProcessError out))))"
  using assms
  by (auto simp: check_output_def starts_def completes_def
      split: process.splits option.splits if_splits)

lemma check_output_started:
  assumes "starts w argv" and "check_output argv timeout w = Some (r, w')"
  shows "w' = ran argv timeout w
       \<and> (if completes (spawn w argv (cwd w)) timeout then \<exists>out. r = Inr out
          else r = Inl TimeoutExpired \<and> timeout \<noteq> None
               \<or> (\<exists>out. r = Inl (CalledProcessError out)))"
  using check_output_cases [OF assms(2)] assms(1) by blast

lemma check_output_returns:
  "timeout \<noteq> None \<or> spawn w argv (cwd w) \<noteq> Hangs
   \<Longrightarrow> \<exists>r w'. check_output argv timeout w = Some (r, w')"
  by (auto simp: check_output_def split: process.splits option.splits)


lemma git_clone_started:
  assumes st: "starts w (clone_argv path source branch)"
  shows "\<exists>w'. git_clone path source branch w = Some (Inr (), w')
           \<and> actions (trace w') = actions (trace w)
                @ [Exec (clone_argv path source branch) (cwd w) (Some CHECKOUT_TIMEOUT)]
           \<and> isdir w'
               = fst (effect w (clone_argv path source branch) (cwd w) (isdir w, islink w))
           \<and> cwd w' = cwd w
           \<and> (\<not> completes (spawn w (clone_argv path source branch) (cwd w))
                        (Some CHECKOUT_TIMEOUT)
                \<longrightarrow> (\<exists>f a. last (trace w') = Syslog LOG_WARNING f a))"
proof -
  define w3 where "w3 = syslog LOG_INFO ''Checking out %s (%s) as %s...'' [source, branch, path] w"
  define argv where "argv = clone_argv path source branch"
  have st3: "starts w3 argv" using st by (simp add: w3_def argv_def)
  obtain r4 w4 where
    c: "check_output argv (Some CHECKOUT_TIMEOUT) w3 = Some (r4, w4)"
    using check_output_returns [of "Some CHECKOUT_TIMEOUT" w3 argv] by auto
  from check_output_started [OF st3 c]
  have w4: "w4 = ran argv (Some CHECKOUT_TIMEOUT) w3"
    and r4: "if completes (spawn w argv (cwd w)) (Some CHECKOUT_TIMEOUT) then \<exists>out. r4 = Inr out
          else r4 = Inl TimeoutExpired \<or> (\<exists>out. r4 = Inl (CalledProcessError out))"
    by (auto simp: w3_def split: if_splits)
  have body: "git_clone path source branch w =
     (case Some (r4, w4) of
           None \<Rightarrow> None
         | Some (Inr out, w4) \<Rightarrow>
             Some (Inr (), syslog LOG_INFO ''Checkout worked!'' [] w4)
         | Some (Inl (CalledProcessError out), w4) \<Rightarrow>
             Some (Inr (),
               syslog LOG_WARNING ''Could not check out %s: %s'' [source, out] w4)
         | Some (Inl TimeoutExpired, w4) \<Rightarrow>
             Some (Inr (),
               syslog LOG_WARNING ''Could not check out %s: operation timed out''
                 [source] w4)
         | Some (Inl e, w4) \<Rightarrow> Some (Inl e, w4))"
    unfolding git_clone_def Let_def w3_def [symmetric]
    using c by (simp add: argv_def clone_argv_def)
  show ?thesis
  proof (cases "completes (spawn w argv (cwd w)) (Some CHECKOUT_TIMEOUT)")
    case True
    with r4 obtain out where "r4 = Inr out" by auto
    with body have "git_clone path source branch w
        = Some (Inr (), syslog LOG_INFO ''Checkout worked!'' [] w4)" by simp
    with True show ?thesis
      unfolding argv_def [symmetric] by (simp add: w4 w3_def)
  next
    case False
    with r4 have "r4 = Inl TimeoutExpired \<or> (\<exists>out. r4 = Inl (CalledProcessError out))"
      by simp
    with body obtain f a where
      "git_clone path source branch w = Some (Inr (), syslog LOG_WARNING f a w4)"
      by auto
    then show ?thesis
      unfolding argv_def [symmetric] by (simp add: w4 w3_def) (simp add: syslog_def)
  qed
qed

lemma checkout_git_repo_clobbers:
  assumes root: "os_path_isdir w ROOT_DIR"
    and dir: "os_path_isdir (w\<lparr>cwd := ROOT_DIR\<rparr>) path"
    and nolink: "\<not> islink w (resolve (w\<lparr>cwd := ROOT_DIR\<rparr>) path)"
    and st: "starts (w\<lparr>cwd := ROOT_DIR\<rparr>) (clone_argv path source branch)"
  shows "\<exists>w'. checkout_git_repo path source branch w = Some (Inr (), w')
           \<and> actions (trace w') = actions (trace w)
                @ [Rmtree path,
                   Exec (clone_argv path source branch) ROOT_DIR (Some CHECKOUT_TIMEOUT)]
           \<and> isdir w' =
               fst (effect w (clone_argv path source branch) ROOT_DIR
                      (\<lambda>d. isdir w d \<and> \<not> within (resolve (w\<lparr>cwd := ROOT_DIR\<rparr>) path) d,
                       islink w))
           \<and> cwd w' = ROOT_DIR
           \<and> (\<not> completes (spawn w (clone_argv path source branch) ROOT_DIR)
                        (Some CHECKOUT_TIMEOUT)
                \<longrightarrow> (\<exists>f a. last (trace w') = Syslog LOG_WARNING f a))"
proof -
  define w1 where "w1 = w\<lparr>cwd := ROOT_DIR\<rparr>"
  define w1' where "w1' = syslog LOG_INFO ''Doing recursive delete of path %s'' [path] w1"
  define p where "p = resolve w1 path"
  define w2 where "w2 = w1'\<lparr>isdir := (\<lambda>d. isdir w1' d \<and> \<not> within p d),
                            trace := trace w1' @ [Rmtree path]\<rparr>"
  have cd: "os_chdir ROOT_DIR w = Inr w1"
    using root by (simp add: os_chdir_def os_path_isdir_def w1_def)
  have rm: "shutil_rmtree path w1' = Inr w2"
    using nolink by (simp add: shutil_rmtree_def w2_def w1'_def p_def w1_def)
  have body: "checkout_git_repo path source branch w = git_clone path source branch w2"
    unfolding checkout_git_repo_def cd Let_def
    using dir rm by (simp add: w1_def w1'_def)
  have st2: "starts w2 (clone_argv path source branch)"
    using st by (simp add: starts_def w2_def w1'_def w1_def)
  have f2: "cwd w2 = ROOT_DIR" "spawn w2 = spawn w" "effect w2 = effect w"
    "isdir w2 = (\<lambda>d. isdir w d \<and> \<not> within p d)" "islink w2 = islink w"
    "actions (trace w2) = actions (trace w) @ [Rmtree path]"
    by (simp_all add: w2_def w1'_def w1_def)
  from git_clone_started [OF st2] body f2 show ?thesis
    unfolding p_def w1_def by auto
qed

section \<open>Which directory the executor acts on\<close>


lemma only_on_refl [simp]: "only_on p w w"
  by (simp add: only_on_def)

lemma only_on_cwd [simp]: "only_on p w (v\<lparr>cwd := x\<rparr>) = only_on p w v"
  by (simp add: only_on_def)







lemma acts_on_here [simp]: "acts_on p (Exec argv (canonical p) t)"
  by (simp add: acts_on_def)

lemma acts_on_clone [simp]:
  "acts_on p (Exec [GIT_CMD, ''clone'', ''-b'', branch, ''--single-branch'', source, p]
                ROOT_DIR t)"
  by (simp add: acts_on_def)






lemma os_path_join_ROOT_absolute: "startswith (os_path_join ROOT_DIR [d]) ''/''"
  by (simp add: ROOT_DIR_def endswith_code startswith_def)





section \<open>Where a validated request is deployed\<close>













section \<open>The example worlds, evaluated\<close>

lemmas path_eval = ROOT_DIR_def BLOGS_ROOT_DIR_def startswith_def endswith_code
  os_path_abspath_def os_path_normpath_def resolve_def canonical_def os_path_isdir_def
  has_nul_def

lemma deploy_site_existing:
  assumes "prevalidation deploydir source branch deploytype w = None"
    and "os_path_isdir w (deploy_path deploydir deploytype)"
  shows "deploy_site deploydir source branch committer deploytype w
         = deploy_existing (deploy_path deploydir deploytype) source branch deploytype w"
  using assms by (simp add: deploy_site_def)

lemma ex_valid: "prevalidation ''foo.apache.org'' gitbox_foo br ''website'' (world_foo f r c)
   = (if br = [] then Some (Syslog LOG_WARNING ''Invalid branch, %s!'' [br]) else None)"
  by (simp add: prevalidation_def Let_def re_match_plus_def deploydir_char_def
        str_replace.simps [of _ _ "_ # _"] str_replace.simps [of _ _ "[]"]
        path_eval gitbox_foo_def world_foo_def)

lemma ex_path: "deploy_path ''foo.apache.org'' ''website'' = foo_dir"
  by (simp add: deploy_path_def foo_dir_def path_eval)

lemma ex_dirs: "os_path_isdir (world_foo f r c) ROOT_DIR"
  "os_path_isdir (world_foo f r c) foo_dir"
  "\<not> os_path_isdir (world_foo f r c) (os_path_join foo_dir [''.svn''])"
  by (simp_all add: foo_dir_def path_eval world_foo_def)

lemma foo_dir_canonical [simp]: "canonical foo_dir = foo_dir" "resolve w foo_dir = foo_dir"
  by (simp_all add: foo_dir_def path_eval)

lemma foo_dir_absolute: "startswith foo_dir ''/''"
  by (simp add: foo_dir_def startswith_def)

lemma strip_line1: "str_strip (gitbox_foo @ [CHR 0x0A]) = gitbox_foo"
  by (simp add: str_strip_def strip_left.simps whitespace_def gitbox_foo_def)

lemma strip_line2: "str_strip ''asf-site\<newline>'' = ''asf-site''"
  by (simp add: str_strip_def strip_left.simps whitespace_def)

lemma decode_line1: "decode_utf8 (gitbox_foo @ [CHR 0x0A]) = Inr (gitbox_foo @ [CHR 0x0A])"
  by (simp add: decode_utf8_def between_def gitbox_foo_def)

lemma decode_line2: "decode_utf8 ''asf-site\<newline>'' = Inr ''asf-site\<newline>''"
  by (simp add: decode_utf8_def between_def)

lemmas strip_line = strip_line1 strip_line2 decode_line1 decode_line2

lemma ex_read: "read_checkout
        ((syslog LOG_INFO ''%s is an existing staging dir, checking it...'' [foo_dir] (world_foo f r c))
           \<lparr>cwd := foo_dir\<rparr>) = Some (Inr (gitbox_foo, ''asf-site''), world_foo_read (world_foo f r c))"
  by (simp add: read_checkout_def check_output_def world_foo_read_def strip_line
      world_foo_def git_foo_def syslog_def ran_def has_nul_def GIT_CMD_def)

lemma world_foo_read_fields [simp]:
  "isdir (world_foo_read (world_foo f r c)) = isdir (world_foo f r c)"
  "cwd (world_foo_read w) = foo_dir"
  "spawn (world_foo_read w) = spawn w" "purge_reply (world_foo_read w) = purge_reply w"
  "effect (world_foo_read w) = effect w"
  "islink (world_foo_read (world_foo f r c)) = islink (world_foo f r c)"
  by (simp_all add: world_foo_read_def ran_def syslog_def world_foo_def split: prod.splits)

lemma ex_pull:
  "deploy_site ''foo.apache.org'' gitbox_foo ''asf-site'' committer ''website'' (world_foo f r c)
   = do_git_pull foo_dir ''asf-site''
       (syslog LOG_INFO ''Source and branch match on-disk, doing git pull'' []
          (world_foo_read (world_foo f r c)))"
proof -
  have v: "prevalidation ''foo.apache.org'' gitbox_foo ''asf-site'' ''website'' (world_foo f r c) = None"
    by (simp add: ex_valid)
  define w0 where
    "w0 = syslog LOG_INFO ''%s is an existing staging dir, checking it...'' [foo_dir]
            (world_foo f r c)"
  have cd: "os_chdir foo_dir w0 = Inr (w0\<lparr>cwd := foo_dir\<rparr>)"
    using ex_dirs(2) [of f r c] by (simp add: os_chdir_def os_path_isdir_def w0_def)
  have svn: "\<not> os_path_isdir w0 (os_path_join foo_dir [''.svn''])"
    using ex_dirs(3) [of f r c] by (simp add: w0_def del: os_path_join.simps)
  from deploy_site_existing [OF v] ex_dirs(2) [of f r c]
  have "deploy_site ''foo.apache.org'' gitbox_foo ''asf-site'' committer ''website'' (world_foo f r c)
       = deploy_existing foo_dir gitbox_foo ''asf-site'' ''website'' (world_foo f r c)"
    by (simp add: ex_path)
  also have "\<dots> = do_git_pull foo_dir ''asf-site''
       (syslog LOG_INFO ''Source and branch match on-disk, doing git pull'' []
          (world_foo_read (world_foo f r c)))"
    unfolding deploy_existing_def Let_def w0_def [symmetric]
    using svn cd ex_read [of f r c]
    by (simp add: w0_def del: os_path_join.simps)
  finally show ?thesis .
qed

lemmas world_eval = world_foo_def git_foo_def syslog_def ran_def check_output_def
  os_chdir_def foo_dir_def path_eval GIT_CMD_def CHECKOUT_TIMEOUT_def

section \<open>Validation confines a deployment\<close>





lemma trailing_newline_passes_validation:
  "prevalidation ''foo\<newline>'' gitbox_foo ''asf-site'' ''website'' world_etc = None
   \<and> \<not> deploydir_char CHR 0x0A"
  by (simp add: prevalidation_def Let_def re_match_plus_def deploydir_char_def
        str_replace.simps [of _ _ "_ # _"] str_replace.simps [of _ _ "[]"]
        path_eval gitbox_foo_def world_etc_def)

section \<open>Reconciliation of an existing git checkout\<close>

lemma prevalidation_cwd:
  "cwd w = cwd v \<Longrightarrow> prevalidation deploydir source branch deploytype w
                   = prevalidation deploydir source branch deploytype v"
  by (simp add: prevalidation_def)

lemma ex_existing:
  assumes "cwd w = ''/''" and "isdir w foo_dir" and "branch \<noteq> []"
  shows "deploy_site ''foo.apache.org'' gitbox_foo branch committer ''website'' w
         = deploy_existing foo_dir gitbox_foo branch ''website'' w"
proof -
  have "cwd w = cwd (world_foo Hangs Hangs Hangs)"
    using assms(1) by (simp add: world_foo_def)
  from prevalidation_cwd [OF this] assms(3)
  have v: "prevalidation ''foo.apache.org'' gitbox_foo branch ''website'' w = None"
    by (simp only: ex_valid if_False)
  have "os_path_isdir w foo_dir"
    using assms(2) by (simp add: os_path_isdir_def) (simp add: has_nul_def foo_dir_def)
  with deploy_site_existing [OF v] show ?thesis by (simp add: ex_path)
qed

lemmas run_eval = deploy_existing_def read_checkout_def checkout_git_repo_def git_clone_def
  do_git_pull_def Let_def syslog_def ran_def check_output_def os_chdir_def
  shutil_rmtree_def decode_utf8_def between_def within_def rstrip_sep_def
  str_strip_def strip_left.simps whitespace_def
  GIT_CMD_def CHECKOUT_TIMEOUT_def gitbox_foo_def foo_dir_def path_eval

text \<open>
  C1 (the code at the failing input). \<open>/www/foo.apache.org\<close> holds a git checkout whose
  recorded origin is not UTF-8: \<open>git config --get remote.origin.url\<close> prints the byte
  \<open>FF\<close>. The metadata of the checkout cannot be read, but \<open>deploy_site\<close> does not remove
  the directory and check it out afresh: \<open>decode("utf-8")\<close> raises \<open>UnicodeDecodeError\<close>,
  which the handler for \<open>CalledProcessError\<close> does not catch, and \<open>deploy_site\<close> raises
  it after that one command, with the directory still there. And where the branch of
  the request differs from that of the checkout because it holds a NUL character, the
  directory is removed and no fresh checkout is performed: \<open>git clone\<close> is never run,
  \<open>check_output\<close> raises \<open>ValueError\<close>, and \<open>deploy_site\<close> raises it.
\<close>

theorem undecodable_origin_is_not_clobbered:
  "(case deploy_site ''foo.apache.org'' gitbox_foo ''asf-site'' ''root'' ''website''
           world_foo_undecodable of
      Some (Inl e, w') \<Rightarrow>
        e = UnicodeDecodeError
        \<and> actions (trace w')
            = [Exec [GIT_CMD, ''config'', ''--get'', ''remote.origin.url''] foo_dir None]
        \<and> isdir w' foo_dir
    | Some (Inr u, w') \<Rightarrow> False
    | None \<Rightarrow> False)
   \<and> (case deploy_site ''foo.apache.org'' gitbox_foo [CHR ''m'', CHR 0x00] ''root''
              ''website'' world_foo_ok of
         Some (Inl e, w') \<Rightarrow>
           e = ValueError ''embedded null byte''
           \<and> actions (trace w')
               = [Exec [GIT_CMD, ''config'', ''--get'', ''remote.origin.url''] foo_dir None,
                  Exec [GIT_CMD, ''symbolic-ref'', ''--short'', ''HEAD''] foo_dir None,
                  Rmtree foo_dir]
           \<and> \<not> isdir w' foo_dir
       | Some (Inr u, w') \<Rightarrow> False
       | None \<Rightarrow> False)"
proof -
  have a: "deploy_site ''foo.apache.org'' gitbox_foo ''asf-site'' ''root'' ''website''
             world_foo_undecodable
           = deploy_existing foo_dir gitbox_foo ''asf-site'' ''website'' world_foo_undecodable"
    by (rule ex_existing)
       (simp_all add: world_foo_undecodable_def world_foo_ok_def world_foo_def foo_dir_def)
  have b: "deploy_site ''foo.apache.org'' gitbox_foo [CHR ''m'', CHR 0x00] ''root''
              ''website'' world_foo_ok
           = deploy_existing foo_dir gitbox_foo [CHR ''m'', CHR 0x00] ''website'' world_foo_ok"
    by (rule ex_existing) (simp_all add: world_foo_ok_def world_foo_def foo_dir_def)
  have c: "case deploy_existing foo_dir gitbox_foo ''asf-site'' ''website''
                  world_foo_undecodable of
      Some (Inl e, w') \<Rightarrow>
        e = UnicodeDecodeError
        \<and> actions (trace w')
            = [Exec [GIT_CMD, ''config'', ''--get'', ''remote.origin.url''] foo_dir None]
        \<and> isdir w' foo_dir
    | Some (Inr u, w') \<Rightarrow> False
    | None \<Rightarrow> False"
    by (simp add: world_foo_undecodable_def world_foo_ok_def world_foo_def git_foo_def
        run_eval)
  have d: "case deploy_existing foo_dir gitbox_foo [CHR ''m'', CHR 0x00] ''website''
                  world_foo_ok of
         Some (Inl e, w') \<Rightarrow>
           e = ValueError ''embedded null byte''
           \<and> actions (trace w')
               = [Exec [GIT_CMD, ''config'', ''--get'', ''remote.origin.url''] foo_dir None,
                  Exec [GIT_CMD, ''symbolic-ref'', ''--short'', ''HEAD''] foo_dir None,
                  Rmtree foo_dir]
           \<and> \<not> isdir w' foo_dir
       | Some (Inr u, w') \<Rightarrow> False
       | None \<Rightarrow> False"
    by (simp add: world_foo_ok_def world_foo_def git_foo_def run_eval)
  from a b c d show ?thesis by simp
qed

section \<open>A failed fresh checkout\<close>

text \<open>
  C10 (as amended). When the deployment root exists, \<open>path\<close> is a directory and no
  symbolic link, and \<open>git clone\<close> can be started (no argument holds a NUL character and
  \<open>git\<close> can be executed), \<open>checkout_git_repo\<close> returns normally after exactly two
  actions, \<open>rmtree\<close> of the path and then \<open>git clone\<close> under the timeout. If the clone
  fails or times out, the last thing done is a warning in the log and nothing restores
  the tree: the directories on disk afterwards are those the clone made of a disk from
  which the path and everything below it had been removed.
\<close>

theorem failed_checkout_is_not_rolled_back:
  assumes root: "os_path_isdir w ROOT_DIR"
    and dir: "os_path_isdir (w\<lparr>cwd := ROOT_DIR\<rparr>) path"
    and nolink: "\<not> islink w (resolve (w\<lparr>cwd := ROOT_DIR\<rparr>) path)"
    and st: "starts (w\<lparr>cwd := ROOT_DIR\<rparr>) (clone_argv path source branch)"
  shows "\<exists>w'. checkout_git_repo path source branch w = Some (Inr (), w')
           \<and> actions (trace w') = actions (trace w)
                @ [Rmtree path,
                   Exec (clone_argv path source branch) ROOT_DIR (Some CHECKOUT_TIMEOUT)]
           \<and> isdir w' =
               fst (effect w (clone_argv path source branch) ROOT_DIR
                      (\<lambda>d. isdir w d \<and> \<not> within (resolve (w\<lparr>cwd := ROOT_DIR\<rparr>) path) d,
                       islink w))
           \<and> (\<not> completes (spawn w (clone_argv path source branch) ROOT_DIR)
                        (Some CHECKOUT_TIMEOUT)
                \<longrightarrow> (\<exists>f a. last (trace w') = Syslog LOG_WARNING f a))"
  using checkout_git_repo_clobbers [OF root dir nolink st] by blast

theorem failed_checkout_is_not_rolled_back_witness:
  "os_path_isdir world_foo_noclone ROOT_DIR
   \<and> os_path_isdir (world_foo_noclone\<lparr>cwd := ROOT_DIR\<rparr>) foo_dir
   \<and> \<not> islink world_foo_noclone (resolve (world_foo_noclone\<lparr>cwd := ROOT_DIR\<rparr>) foo_dir)
   \<and> starts (world_foo_noclone\<lparr>cwd := ROOT_DIR\<rparr>) (clone_argv foo_dir gitbox_foo ''asf-site'')
   \<and> \<not> completes (spawn world_foo_noclone
                    (clone_argv foo_dir gitbox_foo ''asf-site'') ROOT_DIR) (Some CHECKOUT_TIMEOUT)
   \<and> (\<exists>w'. checkout_git_repo foo_dir gitbox_foo ''asf-site'' world_foo_noclone
             = Some (Inr (), w')
          \<and> \<not> isdir w' foo_dir
          \<and> (\<exists>f a. last (trace w') = Syslog LOG_WARNING f a)
          \<and> actions (trace w')
             = [Rmtree foo_dir,
                Exec (clone_argv foo_dir gitbox_foo ''asf-site'') ROOT_DIR (Some CHECKOUT_TIMEOUT)])"
proof -
  have h1: "os_path_isdir world_foo_noclone ROOT_DIR"
    by (simp add: world_foo_noclone_def world_eval)
  have h2: "os_path_isdir (world_foo_noclone\<lparr>cwd := ROOT_DIR\<rparr>) foo_dir"
    by (simp add: world_foo_noclone_def world_eval)
  have h3: "\<not> completes (spawn world_foo_noclone
                    (clone_argv foo_dir gitbox_foo ''asf-site'') ROOT_DIR) (Some CHECKOUT_TIMEOUT)"
    by (simp add: world_foo_noclone_def world_eval completes_def clone_argv_def)
  have h4: "\<not> islink world_foo_noclone (resolve (world_foo_noclone\<lparr>cwd := ROOT_DIR\<rparr>) foo_dir)"
    by (simp add: world_foo_noclone_def world_foo_def)
  have h5: "starts (world_foo_noclone\<lparr>cwd := ROOT_DIR\<rparr>)
              (clone_argv foo_dir gitbox_foo ''asf-site'')"
    by (simp add: starts_def world_foo_noclone_def world_eval clone_argv_def gitbox_foo_def)
  have t: "actions (trace world_foo_noclone) = []"
    by (simp add: world_foo_noclone_def world_foo_def)
  have e: "effect world_foo_noclone = (\<lambda>argv dir disk. disk)"
    "isdir world_foo_noclone = (\<lambda>d. d = ''/www'' \<or> d = ''/www/foo.apache.org'')"
    by (simp_all add: world_foo_noclone_def world_foo_def)
  from failed_checkout_is_not_rolled_back [OF h1 h2 h4 h5] h3 t
  obtain w' where r: "checkout_git_repo foo_dir gitbox_foo ''asf-site'' world_foo_noclone
             = Some (Inr (), w')"
    and a: "actions (trace w')
             = [Rmtree foo_dir,
                Exec (clone_argv foo_dir gitbox_foo ''asf-site'') ROOT_DIR (Some CHECKOUT_TIMEOUT)]"
    and d: "isdir w' =
               fst (effect world_foo_noclone (clone_argv foo_dir gitbox_foo ''asf-site'') ROOT_DIR
                      (\<lambda>d. isdir world_foo_noclone d
                           \<and> \<not> within (resolve (world_foo_noclone\<lparr>cwd := ROOT_DIR\<rparr>) foo_dir) d,
                       islink world_foo_noclone))"
    and l: "\<exists>f a. last (trace w') = Syslog LOG_WARNING f a"
    by auto
  from d have "\<not> isdir w' foo_dir" by (simp add: e)
  with r a l have "\<exists>w'. checkout_git_repo foo_dir gitbox_foo ''asf-site'' world_foo_noclone
             = Some (Inr (), w')
          \<and> \<not> isdir w' foo_dir
          \<and> (\<exists>f a. last (trace w') = Syslog LOG_WARNING f a)
          \<and> actions (trace w')
             = [Rmtree foo_dir,
                Exec (clone_argv foo_dir gitbox_foo ''asf-site'') ROOT_DIR (Some CHECKOUT_TIMEOUT)]"
    by blast
  with h1 h2 h3 h4 h5 show ?thesis by blast
qed

text \<open>
  The claim as first stated fails where the clone that is killed at its timeout leaves
  behind the directory it had begun to fill: the failure is swallowed and the previous
  tree is gone, but the target directory is not absent.
\<close>

theorem killed_clone_counterexample:
  "os_path_isdir (world_foo_partial\<lparr>cwd := ROOT_DIR\<rparr>) foo_dir
   \<and> \<not> completes (spawn world_foo_partial
                    (clone_argv foo_dir gitbox_foo ''asf-site'') ROOT_DIR) (Some CHECKOUT_TIMEOUT)
   \<and> (case checkout_git_repo foo_dir gitbox_foo ''asf-site'' world_foo_partial of
         Some (Inr u, w') \<Rightarrow>
           actions (trace w')
             = [Rmtree foo_dir,
                Exec (clone_argv foo_dir gitbox_foo ''asf-site'') ROOT_DIR (Some CHECKOUT_TIMEOUT)]
           \<and> last (trace w')
               = Syslog LOG_WARNING ''Could not check out %s: operation timed out'' [gitbox_foo]
           \<and> isdir w' foo_dir
       | Some (Inl e, w') \<Rightarrow> False
       | None \<Rightarrow> False)"
  by (simp add: world_foo_partial_def world_foo_def git_foo_def completes_def clone_argv_def
      run_eval)

section \<open>Timeouts in the executor\<close>

text \<open>
  C6 (the code at the failing input). In a checkout where \<open>git fetch\<close> runs for 181
  seconds, \<open>do_git_pull\<close> does not return: its handler of \<open>TimeoutExpired\<close> raises
  \<open>NameError\<close> for the undefined name \<open>source\<close>, and \<open>deploy_site\<close> passes it on.
\<close>

theorem fetch_timeout_raises_NameError:
  "do_git_pull foo_dir ''asf-site'' world_foo_slow_fetch
     = Some (Inl (NameError ''source''),
         ran (fetch_argv ''asf-site'') (Some CHECKOUT_TIMEOUT)
           (world_foo_slow_fetch\<lparr>cwd := foo_dir\<rparr>))
   \<and> (case deploy_site ''foo.apache.org'' gitbox_foo ''asf-site'' ''root'' ''website''
              world_foo_slow_fetch of
         Some (Inl e, w') \<Rightarrow> e = NameError ''source''
       | Some (Inr u, w') \<Rightarrow> False
       | None \<Rightarrow> False)"
proof -
  have a: "do_git_pull foo_dir ''asf-site'' world_foo_slow_fetch
     = Some (Inl (NameError ''source''),
         ran (fetch_argv ''asf-site'') (Some CHECKOUT_TIMEOUT)
           (world_foo_slow_fetch\<lparr>cwd := foo_dir\<rparr>))"
    by (simp add: do_git_pull_def world_foo_slow_fetch_def fetch_argv_def world_eval)
  define w3 where "w3 = syslog LOG_INFO ''Source and branch match on-disk, doing git pull'' []
          (world_foo_read world_foo_slow_fetch)"
  have "isdir w3 foo_dir"
    by (simp add: w3_def world_foo_slow_fetch_def) (simp add: world_foo_def foo_dir_def)
  then have cd: "os_chdir foo_dir w3 = Inr (w3\<lparr>cwd := foo_dir\<rparr>)"
    by (simp add: os_chdir_def) (simp add: has_nul_def foo_dir_def)
  have sp: "spawn (w3\<lparr>cwd := foo_dir\<rparr>) (fetch_argv ''asf-site'') (cwd (w3\<lparr>cwd := foo_dir\<rparr>))
            = Exits 0 [] 181"
    by (simp add: w3_def world_foo_slow_fetch_def world_foo_def git_foo_def fetch_argv_def)
  have "do_git_pull foo_dir ''asf-site'' w3
        = Some (Inl (NameError ''source''),
            ran (fetch_argv ''asf-site'') (Some CHECKOUT_TIMEOUT) (w3\<lparr>cwd := foo_dir\<rparr>))"
    unfolding do_git_pull_def cd
    using sp by (simp add: check_output_def fetch_argv_def CHECKOUT_TIMEOUT_def has_nul_def
        GIT_CMD_def)
  then have b: "deploy_site ''foo.apache.org'' gitbox_foo ''asf-site'' ''root'' ''website''
              world_foo_slow_fetch
        = Some (Inl (NameError ''source''),
            ran (fetch_argv ''asf-site'') (Some CHECKOUT_TIMEOUT) (w3\<lparr>cwd := foo_dir\<rparr>))"
    unfolding world_foo_slow_fetch_def w3_def by (simp add: ex_pull)
  from a b show ?thesis by simp
qed


text \<open>
  C7 (the code at the failing input). \<open>git reset --hard\<close> is run without a timeout: when
  it never exits, \<open>do_git_pull\<close> and \<open>deploy_site\<close> never return, and the drain cycle never
  reaches the second entry of its snapshot.
\<close>

theorem reset_without_timeout_blocks_drain:
  "do_git_pull foo_dir ''asf-site'' world_foo_reset_hangs = None
   \<and> deploy_site ''foo.apache.org'' gitbox_foo ''asf-site'' ''root'' ''website''
        world_foo_reset_hangs = None
   \<and> run_cycle config_tlp
        [(''foo.apache.org'', request_foo), (''bar.apache.org'', request_bar)]
        world_foo_reset_hangs = None"
proof -
  have a: "do_git_pull foo_dir ''asf-site'' world_foo_reset_hangs = None"
    by (simp add: do_git_pull_def world_foo_reset_hangs_def fetch_argv_def world_eval)
  define w3 where "w3 = syslog LOG_INFO ''Source and branch match on-disk, doing git pull'' []
          (world_foo_read world_foo_reset_hangs)"
  have "isdir w3 foo_dir"
    by (simp add: w3_def world_foo_reset_hangs_def) (simp add: world_foo_def foo_dir_def)
  then have cd: "os_chdir foo_dir w3 = Inr (w3\<lparr>cwd := foo_dir\<rparr>)"
    by (simp add: os_chdir_def) (simp add: has_nul_def foo_dir_def)
  have sp: "spawn w3 = git_foo (Exits 0 [] 2) Hangs (Exits 0 [] 9)"
    by (simp add: w3_def world_foo_reset_hangs_def world_foo_def)
  have "do_git_pull foo_dir ''asf-site'' w3 = None"
    unfolding do_git_pull_def cd
    by (simp add: check_output_def sp git_foo_def CHECKOUT_TIMEOUT_def syslog_def ran_def
          Let_def has_nul_def GIT_CMD_def)
  then have b: "deploy_site ''foo.apache.org'' gitbox_foo ''asf-site'' ''root'' ''website''
              world_foo_reset_hangs = None"
    unfolding world_foo_reset_hangs_def w3_def by (simp add: ex_pull)
  then have c: "run_cycle config_tlp
        [(''foo.apache.org'', request_foo), (''bar.apache.org'', request_bar)]
        world_foo_reset_hangs = None"
    by (simp add: run_cycle_def drain_def run_entry_def request_foo_def)
  from a b c show ?thesis by simp
qed

section \<open>The deploy queue\<close>

lemma distinct_upsert: "distinct (map fst q) \<Longrightarrow> distinct (map fst (upsert k r q))"
  by (simp add: upsert_def distinct_update)

lemma map_of_upsert: "map_of (upsert k r q) = (map_of q)(k \<mapsto> r)"
  by (simp add: upsert_def update_conv')

lemma distinct_upserts: "distinct (map fst q) \<Longrightarrow> distinct (map fst (upserts ups q))"
  unfolding upserts_def
  by (induction ups arbitrary: q) (auto simp: distinct_upsert)

lemma upserts_append: "upserts (xs @ ys) q = upserts ys (upserts xs q)"
  by (simp add: upserts_def)

lemma upserts_Cons: "upserts ((k, r) # ups) q = upserts ups (upsert k r q)"
  by (simp add: upserts_def)

lemma map_of_upserts_other:
  "k \<notin> fst ` set ups \<Longrightarrow> map_of (upserts ups q) k = map_of q k"
  unfolding upserts_def
  by (induction ups arbitrary: q) (auto simp: map_of_upsert)

lemma filter_key_distinct:
  "distinct (map fst xs) \<Longrightarrow> map_of xs k = Some v \<Longrightarrow> filter (\<lambda>e. fst e = k) xs = [(k, v)]"
proof (induction xs)
  case Nil
  then show ?case by simp
next
  case (Cons x xs)
  show ?case
  proof (cases "fst x = k")
    case True
    with Cons.prems have "x = (k, v)" by (cases x) auto
    moreover from True Cons.prems have "k \<notin> fst ` set xs" by simp
    then have "filter (\<lambda>e. fst e = k) xs = []"
      by (force simp: filter_empty_conv)
    ultimately show ?thesis by simp
  next
    case False
    with Cons show ?thesis by (cases x) auto
  qed
qed

text \<open>
  C4. Start from a queue with at most one entry per key and run any sequence of upserts
  in which \<open>r1\<close> and later \<open>r2\<close> are stored under \<open>k\<close>, with no upsert under \<open>k\<close> after
  \<open>r2\<close>. The snapshot the next drain takes has exactly one entry for \<open>k\<close>, and it is
  \<open>r2\<close>. The queue keeps at most one entry per key through every upsert, and the drain
  leaves the live queue empty.
\<close>

theorem upsert_last_writer_wins:
  assumes d: "distinct (map fst q)"
    and later: "\<forall>e \<in> set post. fst e \<noteq> k"
  shows "filter (\<lambda>e. fst e = k)
           (fst (drain (upserts (pre @ [(k, r1)] @ mid @ [(k, r2)] @ post) q))) = [(k, r2)]
       \<and> distinct (map fst (upserts (pre @ [(k, r1)] @ mid @ [(k, r2)] @ post) q))
       \<and> distinct (map fst (upsert k r2 q))
       \<and> snd (drain (upserts (pre @ [(k, r1)] @ mid @ [(k, r2)] @ post) q)) = []"
proof -
  let ?q = "upserts (pre @ [(k, r1)] @ mid @ [(k, r2)] @ post) q"
  have dq: "distinct (map fst ?q)" using d by (rule distinct_upserts)
  have "?q = upserts post (upsert k r2 (upserts (pre @ [(k, r1)] @ mid) q))"
    by (simp add: upserts_append upserts_Cons upserts_def)
  moreover from later have "k \<notin> fst ` set post" by auto
  ultimately have "map_of ?q k = Some r2"
    by (simp add: map_of_upserts_other map_of_upsert)
  with dq have "filter (\<lambda>e. fst e = k) ?q = [(k, r2)]" by (rule filter_key_distinct)
  with dq d show ?thesis by (simp add: drain_def distinct_upsert)
qed

theorem upsert_last_writer_wins_witness:
  "distinct (map fst ([] :: queue))
   \<and> fst (drain (upserts ([] @ [(''foo.apache.org'', request_untrusted)] @ []
                             @ [(''foo.apache.org'', request_foo)]
                             @ [(''bar.apache.org'', request_bar)]) []))
       = [(''foo.apache.org'', request_foo), (''bar.apache.org'', request_bar)]
   \<and> filter (\<lambda>e. fst e = ''foo.apache.org'')
       (fst (drain (upserts ([] @ [(''foo.apache.org'', request_untrusted)] @ []
                             @ [(''foo.apache.org'', request_foo)]
                             @ [(''bar.apache.org'', request_bar)]) [])))
       = [(''foo.apache.org'', request_foo)]"
proof -
  have h1: "distinct (map fst ([] :: queue))" by simp
  have h2: "\<forall>e \<in> set [(''bar.apache.org'', request_bar)]. fst e \<noteq> ''foo.apache.org''"
    by simp
  have v: "fst (drain (upserts ([] @ [(''foo.apache.org'', request_untrusted)] @ []
                             @ [(''foo.apache.org'', request_foo)]
                             @ [(''bar.apache.org'', request_bar)]) []))
       = [(''foo.apache.org'', request_foo), (''bar.apache.org'', request_bar)]"
    by (simp add: drain_def upserts_def upsert_def)
  from upsert_last_writer_wins [OF h1 h2, of "[]" request_untrusted "[]" request_foo]
  have "filter (\<lambda>e. fst e = ''foo.apache.org'')
       (fst (drain (upserts ([] @ [(''foo.apache.org'', request_untrusted)] @ []
                             @ [(''foo.apache.org'', request_foo)]
                             @ [(''bar.apache.org'', request_bar)]) [])))
       = [(''foo.apache.org'', request_foo)]"
    by blast
  with h1 v show ?thesis by blast
qed

section \<open>Purges after a deploy\<close>

lemma posts_append [simp]: "posts (xs @ ys) = posts xs @ posts ys"
  by (simp add: posts_def)

lemma posts_Nil [simp]: "posts [] = []"
  by (simp add: posts_def)

lemma posts_Cons [simp]:
  "posts (e # es) = (if is_post e then e # posts es else posts es)"
  by (simp add: posts_def)

lemma quiet_refl [simp]: "quiet w w"
  by (simp add: quiet_def)

lemma quiet_trans: "quiet w w1 \<Longrightarrow> quiet w1 w2 \<Longrightarrow> quiet w w2"
  by (simp add: quiet_def)

lemma quiet_syslog [simp]: "quiet w (syslog p f a w1) = quiet w w1"
  by (simp add: quiet_def syslog_def)

lemma quiet_cwd [simp]: "quiet w (w1\<lparr>cwd := d\<rparr>) = quiet w w1"
  by (simp add: quiet_def)

lemma quiet_rmtree: "shutil_rmtree p w = Inr w' \<Longrightarrow> quiet w w'"
  by (auto simp: quiet_def shutil_rmtree_def split: if_splits)

lemma quiet_check_output:
  "check_output argv t w = Some (r, w') \<Longrightarrow> quiet w w'"
  by (auto simp: check_output_def quiet_def ran_def
      split: process.splits option.splits if_splits)

lemma quiet_chdir: "os_chdir p w = Inr w' \<Longrightarrow> quiet w w'"
  by (auto simp: os_chdir_def split: if_splits)

lemma quiet_git_clone:
  assumes "git_clone path source branch w = Some (r, w')"
  shows "quiet w w'"
  using assms unfolding git_clone_def Let_def
  by (auto split: sum.splits option.splits exn.splits if_splits
      dest!: quiet_check_output
      simp: quiet_def syslog_def)

lemma quiet_checkout_git_repo:
  assumes "checkout_git_repo path source branch w = Some (r, w')"
  shows "quiet w w'"
  using assms unfolding checkout_git_repo_def Let_def
  by (auto split: sum.splits option.splits if_splits
      dest!: quiet_git_clone quiet_chdir quiet_rmtree
      simp: quiet_def syslog_def)

lemma quiet_do_git_pull:
  assumes "do_git_pull path branch w = Some (r, w')"
  shows "quiet w w'"
  using assms unfolding do_git_pull_def Let_def
  by (auto split: sum.splits option.splits exn.splits if_splits
      dest!: quiet_check_output quiet_chdir
      simp: quiet_def syslog_def)

lemma quiet_do_svn_up:
  assumes "do_svn_up path w = Some (r, w')"
  shows "quiet w w'"
  using assms unfolding do_svn_up_def
  by (auto split: sum.splits option.splits exn.splits if_splits
      dest!: quiet_check_output quiet_chdir
      simp: quiet_def syslog_def)

lemma quiet_read_checkout:
  assumes "read_checkout w = Some (m, w2)"
  shows "quiet w w2"
  using assms unfolding read_checkout_def
  by (auto split: sum.splits option.splits
      dest!: quiet_check_output simp: quiet_def)

lemma quiet_syslog_left: "quiet (syslog p f a w) w' \<Longrightarrow> quiet w w'"
  by (simp add: quiet_def syslog_def)

lemma quiet_deploy_existing:
  assumes "deploy_existing path source branch deploytype w = Some (r, w')"
  shows "quiet w w'"
  using assms unfolding deploy_existing_def Let_def
  by (auto split: sum.splits option.splits exn.splits if_splits prod.splits
      dest!: quiet_chdir quiet_read_checkout quiet_checkout_git_repo quiet_do_git_pull
        quiet_do_svn_up
      simp: quiet_def syslog_def)

lemma quiet_deploy_site:
  assumes "deploy_site deploydir source branch committer deploytype w = Some (r, w')"
  shows "quiet w w'"
proof (cases "prevalidation deploydir source branch deploytype w")
  case (Some ev)
  then have "\<exists>p f a. ev = Syslog p f a"
    by (auto simp: prevalidation_def Let_def split: if_splits)
  with assms Some show ?thesis by (auto simp: deploy_site_def quiet_def)
next
  case None
  with assms have "deploy_existing (deploy_path deploydir deploytype) source branch deploytype w
       = Some (r, w')
     \<or> (\<exists>p f a. w' = syslog p f a w)
     \<or> (\<exists>p f a. checkout_git_repo (deploy_path deploydir deploytype) source branch
            (syslog p f a w) = Some (r, w'))"
    unfolding deploy_site_def Let_def by (auto split: if_splits)
  then show ?thesis
  proof (elim disjE exE)
    assume "deploy_existing (deploy_path deploydir deploytype) source branch deploytype w
       = Some (r, w')"
    then show ?thesis by (rule quiet_deploy_existing)
  next
    fix p f a assume "w' = syslog p f a w"
    then show ?thesis by simp
  next
    fix p f a
    assume "checkout_git_repo (deploy_path deploydir deploytype) source branch
            (syslog p f a w) = Some (r, w')"
    then have "quiet (syslog p f a w) w'" by (rule quiet_checkout_git_repo)
    then show ?thesis by (simp add: quiet_def syslog_def)
  qed
qed

lemma purge_site_posts:
  "\<exists>r w'. purge_site key host svc w = Some (r, w')
     \<and> posts (trace w') = posts (trace w) @ [Post (purge_url svc host) key]
     \<and> purge_reply w' = purge_reply w
     \<and> (purge_reply w (purge_url svc host) \<noteq> None \<longrightarrow> r = Inr ())"
  by (auto simp: purge_site_def purge_url_def Let_def syslog_def split: option.splits)

lemma purges_posts:
  "\<exists>r w' ps. purges cfg deploydir opts w = Some (r, w')
     \<and> posts (trace w') = posts (trace w) @ ps
     \<and> ps \<noteq> [] \<and> prefix ps (expected_purges cfg deploydir opts)
     \<and> ((\<forall>url. purge_reply w url \<noteq> None)
          \<longrightarrow> ps = expected_purges cfg deploydir opts \<and> r = Inr ())"
proof -
  let ?key = "FASTLY_API_KEY cfg"
  let ?b = "Post (purge_url FASTLY_BLOGS_SVC_ID
                    (str_replace ''.blog'' [] deploydir @ ''.blog.apache.org'')) ?key"
  let ?h = "Post (purge_url FASTLY_SVC_ID (r_hostname opts)) ?key"
  let ?a = "Post (purge_url FASTLY_SVC_ID ''apache.org'') ?key"
  let ?pre = "if r_deploytype opts = ''blog'' then [?b] else []"
  \<comment> \<open>the optional blog purge\<close>
  have first: "\<exists>r1 w1. (if r_deploytype opts = ''blog''
            then purge_site ?key
                   (str_replace ''.blog'' [] deploydir @ ''.blog.apache.org'')
                   FASTLY_BLOGS_SVC_ID w
            else Some (Inr (), w)) = Some (r1, w1)
       \<and> posts (trace w1) = posts (trace w) @ ?pre
       \<and> purge_reply w1 = purge_reply w
       \<and> ((\<forall>url. purge_reply w url \<noteq> None) \<longrightarrow> r1 = Inr ())
       \<and> (r1 \<noteq> Inr () \<longrightarrow> r_deploytype opts = ''blog'')"
    using purge_site_posts [of ?key "str_replace ''.blog'' [] deploydir @ ''.blog.apache.org''"
        FASTLY_BLOGS_SVC_ID w]
    by auto
  then obtain r1 w1 where
    f1: "(if r_deploytype opts = ''blog''
            then purge_site ?key
                   (str_replace ''.blog'' [] deploydir @ ''.blog.apache.org'')
                   FASTLY_BLOGS_SVC_ID w
            else Some (Inr (), w)) = Some (r1, w1)"
    and p1: "posts (trace w1) = posts (trace w) @ ?pre"
    and e1: "purge_reply w1 = purge_reply w"
    and a1: "(\<forall>url. purge_reply w url \<noteq> None) \<longrightarrow> r1 = Inr ()"
    and b1: "r1 \<noteq> Inr () \<longrightarrow> r_deploytype opts = ''blog''"
    by blast
  show ?thesis
  proof (cases r1)
    case (Inl e)
    with f1 have "purges cfg deploydir opts w = Some (Inl e, w1)"
      by (simp add: purges_def)
    moreover from Inl b1 have blog: "r_deploytype opts = ''blog''" by simp
    moreover from Inl a1 have "\<not> (\<forall>url. purge_reply w url \<noteq> None)" by auto
    ultimately show ?thesis using p1
      by (auto simp: expected_purges_def)
  next
    case (Inr u)
    from purge_site_posts [of ?key "r_hostname opts" FASTLY_SVC_ID w1]
    obtain r2 w2 where
      f2: "purge_site ?key (r_hostname opts) FASTLY_SVC_ID w1 = Some (r2, w2)"
      and p2: "posts (trace w2) = posts (trace w1) @ [?h]"
      and e2: "purge_reply w2 = purge_reply w1"
      and a2: "purge_reply w1 (purge_url FASTLY_SVC_ID (r_hostname opts)) \<noteq> None \<longrightarrow> r2 = Inr ()"
      by blast
    show ?thesis
    proof (cases r2)
      case (Inl e)
      with f1 Inr f2 have "purges cfg deploydir opts w = Some (Inl e, w2)"
        by (simp add: purges_def)
      moreover from Inl a2 e1 have "\<not> (\<forall>url. purge_reply w url \<noteq> None)" by auto
      ultimately show ?thesis using p1 p2
        by (auto simp: expected_purges_def)
    next
      case r2: (Inr u')
      show ?thesis
      proof (cases "r_hostname opts = ''www.apache.org''")
        case False
        with f1 Inr f2 r2 have "purges cfg deploydir opts w = Some (Inr (), w2)"
          by (simp add: purges_def)
        then show ?thesis using p1 p2 False
          by (auto simp: expected_purges_def)
      next
        case True
        from purge_site_posts [of ?key "''apache.org''" FASTLY_SVC_ID w2]
        obtain r3 w3 where
          f3: "purge_site ?key ''apache.org'' FASTLY_SVC_ID w2 = Some (r3, w3)"
          and p3: "posts (trace w3) = posts (trace w2) @ [?a]"
          and a3: "purge_reply w2 (purge_url FASTLY_SVC_ID ''apache.org'') \<noteq> None \<longrightarrow> r3 = Inr ()"
          by blast
        from f1 Inr f2 r2 True f3 have "purges cfg deploydir opts w = Some (r3, w3)"
          by (simp add: purges_def)
        moreover from a3 e1 e2 have "(\<forall>url. purge_reply w url \<noteq> None) \<longrightarrow> r3 = Inr ()"
          by auto
        ultimately show ?thesis using p1 p2 p3 True
          by (auto simp: expected_purges_def)
      qed
    qed
  qed
qed

text \<open>
  C8 (as amended). Let \<open>deploy_site\<close> come back from an entry, with \<open>r\<close> what it returned
  or raised. On a publishing host that holds a Fastly key, purges are sent whenever it
  returned, whatever it did: a validation rejection returns like a deploy does. The
  purges sent are a non-empty initial part of: the blog-subdomain purge for a blog, the
  purge of the hostname, and the purge of \<open>apache.org\<close> when the hostname is
  \<open>www.apache.org\<close>; all of them when the endpoint answers every request. No purge is sent
  when \<open>deploy_site\<close> raised, on a staging host, or without a key.
\<close>

theorem run_entry_purges_after_every_return:
  assumes ds: "deploy_site deploydir (r_source opts) (r_branch opts) (r_committer opts)
                 (r_deploytype opts) w = Some (r, w1)"
  shows "\<exists>w' ps. run_entry cfg deploydir opts w = Some w'
           \<and> posts (trace w') = posts (trace w) @ ps
           \<and> (if PUBLISH cfg \<and> FASTLY_API_KEY cfg \<noteq> [] \<and> r = Inr ()
              then ps \<noteq> [] \<and> prefix ps (expected_purges cfg deploydir opts)
                   \<and> ((\<forall>url. purge_reply w url \<noteq> None)
                        \<longrightarrow> ps = expected_purges cfg deploydir opts)
              else ps = [])
           \<and> (prevalidation deploydir (r_source opts) (r_branch opts) (r_deploytype opts) w
                 \<noteq> None \<longrightarrow> r = Inr ())"
proof -
  from quiet_deploy_site [OF ds]
  have q: "posts (trace w1) = posts (trace w)" "purge_reply w1 = purge_reply w"
    by (simp_all add: quiet_def)
  from ds have rej: "prevalidation deploydir (r_source opts) (r_branch opts) (r_deploytype opts) w
                 \<noteq> None \<longrightarrow> r = Inr ()"
    by (auto simp: deploy_site_def)
  show ?thesis
  proof (cases "PUBLISH cfg \<and> FASTLY_API_KEY cfg \<noteq> [] \<and> r = Inr ()")
    case False
    then have "run_entry cfg deploydir opts w = Some w1
      \<or> (\<exists>e. run_entry cfg deploydir opts w = Some (w1\<lparr>trace := trace w1 @
                  [SyslogExn LOG_WARNING ''BORK: Could not deploy to %s: %s''
                     [deploydir] e]\<rparr>))"
      using ds by (cases r) (auto simp: run_entry_def)
    with q False rej show ?thesis by auto
  next
    case True
    from purges_posts [of cfg deploydir opts w1] obtain r2 w2 ps where
      pu: "purges cfg deploydir opts w1 = Some (r2, w2)"
      and pp: "posts (trace w2) = posts (trace w1) @ ps"
      and ne: "ps \<noteq> []" "prefix ps (expected_purges cfg deploydir opts)"
      and al: "(\<forall>url. purge_reply w1 url \<noteq> None)
          \<longrightarrow> ps = expected_purges cfg deploydir opts \<and> r2 = Inr ()"
      by blast
    from True ds pu have "run_entry cfg deploydir opts w = Some w2
      \<or> (\<exists>e. run_entry cfg deploydir opts w = Some (w2\<lparr>trace := trace w2 @
                  [SyslogExn LOG_WARNING ''BORK: Could not deploy to %s: %s''
                     [deploydir] e]\<rparr>))"
      by (cases r2) (auto simp: run_entry_def)
    with q pp ne al True rej show ?thesis by auto
  qed
qed

lemma untrusted_rejected:
  "prevalidation ''foo.apache.org'' (r_source request_untrusted) (r_branch request_untrusted)
       (r_deploytype request_untrusted) world_foo_ok
     = Some (Syslog LOG_WARNING ''Invalid source URL, %s!'' [''https://example.org/foo.git''])"
  by (simp add: prevalidation_def Let_def re_match_plus_def deploydir_char_def
        str_replace.simps [of _ _ "_ # _"] str_replace.simps [of _ _ "[]"]
        path_eval request_untrusted_def world_foo_ok_def world_foo_def)

theorem run_entry_purges_after_every_return_witness:
  "deploy_site ''foo.apache.org'' (r_source request_untrusted) (r_branch request_untrusted)
       (r_committer request_untrusted) (r_deploytype request_untrusted) world_foo_ok
     = Some (Inr (), world_foo_ok\<lparr>trace := trace world_foo_ok @
          [Syslog LOG_WARNING ''Invalid source URL, %s!'' [''https://example.org/foo.git'']]\<rparr>)
   \<and> PUBLISH config_tlp \<and> FASTLY_API_KEY config_tlp \<noteq> []
   \<and> (\<exists>w'. run_entry config_tlp ''foo.apache.org'' request_untrusted world_foo_ok = Some w'
          \<and> posts (trace w') = expected_purges config_tlp ''foo.apache.org'' request_untrusted)
   \<and> expected_purges config_tlp ''foo.apache.org'' request_untrusted
       = [Post (purge_url FASTLY_SVC_ID ''foo.apache.org'') ''key'']"
proof -
  have d: "deploy_site ''foo.apache.org'' (r_source request_untrusted) (r_branch request_untrusted)
       (r_committer request_untrusted) (r_deploytype request_untrusted) world_foo_ok
     = Some (Inr (), world_foo_ok\<lparr>trace := trace world_foo_ok @
          [Syslog LOG_WARNING ''Invalid source URL, %s!'' [''https://example.org/foo.git'']]\<rparr>)"
    by (simp add: deploy_site_def untrusted_rejected)
  have c: "PUBLISH config_tlp \<and> FASTLY_API_KEY config_tlp \<noteq> []"
    by (simp add: config_tlp_def)
  have a: "\<forall>url. purge_reply world_foo_ok url \<noteq> None"
    by (simp add: world_foo_ok_def world_foo_def)
  have t: "posts (trace world_foo_ok) = []"
    by (simp add: world_foo_ok_def world_foo_def)
  have e: "expected_purges config_tlp ''foo.apache.org'' request_untrusted
       = [Post (purge_url FASTLY_SVC_ID ''foo.apache.org'') ''key'']"
    by (simp add: expected_purges_def config_tlp_def request_untrusted_def)
  from run_entry_purges_after_every_return [OF d, of config_tlp] c a t
  have "\<exists>w'. run_entry config_tlp ''foo.apache.org'' request_untrusted world_foo_ok = Some w'
          \<and> posts (trace w') = expected_purges config_tlp ''foo.apache.org'' request_untrusted"
    by auto
  with d c e show ?thesis by blast
qed

text \<open>
  The claim as first stated fails for a request that validation rejects: its source is
  not a trusted origin, nothing is deployed, and the hostname is purged all the same.
\<close>

theorem purge_after_rejection_counterexample:
  "prevalidation ''foo.apache.org'' (r_source request_untrusted) (r_branch request_untrusted)
       (r_deploytype request_untrusted) world_foo_ok
     = Some (Syslog LOG_WARNING ''Invalid source URL, %s!'' [''https://example.org/foo.git''])
   \<and> (case run_entry config_tlp ''foo.apache.org'' request_untrusted world_foo_ok of
         Some w' \<Rightarrow> posts (trace w') = [Post (purge_url FASTLY_SVC_ID ''foo.apache.org'') ''key'']
                    \<and> actions (trace w') = []
       | None \<Rightarrow> False)"
proof -
  note v = untrusted_rejected
  have d: "deploy_site ''foo.apache.org'' (r_source request_untrusted) (r_branch request_untrusted)
       (r_committer request_untrusted) (r_deploytype request_untrusted) world_foo_ok
     = Some (Inr (), world_foo_ok\<lparr>trace := trace world_foo_ok @
          [Syslog LOG_WARNING ''Invalid source URL, %s!'' [''https://example.org/foo.git'']]\<rparr>)"
    by (simp add: deploy_site_def v)
  have "case run_entry config_tlp ''foo.apache.org'' request_untrusted world_foo_ok of
         Some w' \<Rightarrow> posts (trace w') = [Post (purge_url FASTLY_SVC_ID ''foo.apache.org'') ''key'']
                    \<and> actions (trace w') = []
       | None \<Rightarrow> False"
    unfolding run_entry_def d
    by (simp add: config_tlp_def purges_def purge_site_def purge_url_def Let_def syslog_def
          request_untrusted_def world_foo_ok_def world_foo_def)
  with v show ?thesis by simp
qed

section \<open>One bad message and the event loop\<close>

lemmas listen_eval = listen_body_def svn_conversion_def normalize_def attempt_def
  andthen_def rendered_def staging_dir_def publish_dir_def with_subdir_def enqueue_def
  upsert_def Let_def

lemma body_null_branch:
  "listen_body config_tlp publish_null_branch q w = Raises AttributeError w"
  by (simp add: listen_eval publish_null_branch_def config_tlp_def)

lemma gitbox_foo_nonempty [simp]: "gitbox_foo \<noteq> []"
  by (simp add: gitbox_foo_def)

lemma body_foo:
  "listen_body config_tlp publish_foo [] w
   = Returns [(''foo.apache.org'', request_foo)]
       (syslog LOG_INFO ''Found deploy [%s] delivery for %s, deploying as %s''
          [''website'', ''foo'', ''foo.apache.org''] w)"
  by (simp add: listen_eval publish_foo_def config_tlp_def request_foo_def
        str_replace.simps [of _ _ "_ # _"] str_replace.simps [of _ _ "[]"])

text \<open>
  C9 (the code at the failing input). On a publishing host, a publish message whose
  \<open>branch\<close> is \<open>null\<close> makes \<open>.replace\<close> raise \<open>AttributeError\<close>. The \<open>try\<close> of \<open>listen\<close>
  catches \<open>ValueError\<close> only, so the exception ends the loop: the well-formed message
  that follows it in the stream is never queued, though alone it would be.
\<close>

theorem null_branch_ends_listen:
  "listen_body config_tlp publish_null_branch [] world_foo_ok
     = Raises AttributeError world_foo_ok
   \<and> listen config_tlp [publish_null_branch, publish_foo] [] world_foo_ok
     = Raises AttributeError world_foo_ok
   \<and> listen config_tlp [publish_foo] [] world_foo_ok
     = Returns [(''foo.apache.org'', request_foo)]
         (syslog LOG_WARNING (''Disconnected from '' @ PUBSUB_URL @ '', reconnecting'') []
            (syslog LOG_INFO ''Found deploy [%s] delivery for %s, deploying as %s''
               [''website'', ''foo'', ''foo.apache.org''] world_foo_ok))"
  by (simp add: body_null_branch body_foo)


end
